theory Spec2Isabelle
  imports Main "HOL-Library.Word"
begin

section \<open>The operating system as seen by susres\<close>

text \<open>
  \<^verbatim>\<open>winbuild/susres.cpp\<close> suspends, resumes or queries all threads of a process. Everything
  it does goes through Win32 calls, so the embedding passes an explicit \<open>world\<close>: the
  process and thread tables of the machine, the per-thread suspend counts, the table of
  handles the tool holds open, the last-error value, the lines printed so far and the
  log of system calls made. A \<open>DWORD\<close> is a 32-bit word.
\<close>

type_synonym dword = "32 word"

text \<open>
  A \<open>HANDLE\<close> is a pointer-sized value. The code compares handles with two
  distinguished values only, the null pointer and \<open>INVALID_HANDLE_VALUE\<close> (all bits
  set); every other value names an entry of the handle table.
\<close>

datatype handle = NULL | INVALID_HANDLE_VALUE | Handle nat

record THREADENTRY32 =
  th32ThreadID :: dword
  th32OwnerProcessID :: dword

datatype hobj =
    Process_object dword
  | Thread_object dword
  | Snapshot_object "THREADENTRY32 list"

text \<open>The two entry points of ntdll that \<open>apply\<close> looks up by name (\<open>sus_res_func\<close>).\<close>

datatype sus_res_func = NtSuspendProcess | NtResumeProcess

text \<open>
  One constructor per \<open>fmt::print\<close> of the source, with its arguments in order; the last
  argument of a failure line is the text \<open>win32_strerror\<close> returned.
\<close>

datatype msg =
    Failed_GetProcAddress string string
  | Failed_OpenProcess dword string
  | Primitive_returns string dword dword string
  | Failed_CreateToolhelp32Snapshot string
  | Failed_OpenThread dword string
  | SuspendThread_failed dword string
  | ResumeThread_failed dword string
  | No_threads_found dword
  | Status_line string
  | Usage_text

text \<open>
  The system calls the tool makes, as logged by the model. A call on a thread handle
  is logged with the thread the handle denotes (\<open>None\<close> when it denotes no thread).
\<close>

datatype oscall =
    GetProcAddress_call string
  | OpenProcess_call dword
  | Primitive_call sus_res_func handle
  | Snapshot_call
  | OpenThread_call dword
  | SuspendThread_call "dword option"
  | ResumeThread_call "dword option"
  | CloseHandle_call handle

text \<open>
  What the environment refuses. Each field gives the error code of a call that fails
  (\<open>None\<close>: the call goes through); \<open>nt_status\<close> is the \<open>NTSTATUS\<close> the whole-process
  primitive returns for a process, 0 being success. \<open>system_message\<close> is the message
  the system has for a code, \<open>None\<close> when \<open>FormatMessageA\<close> cannot decode it.
\<close>

record faults =
  missing_export :: "string \<Rightarrow> dword option"
  deny_process :: "dword \<Rightarrow> dword option"
  nt_status :: "sus_res_func \<Rightarrow> dword \<Rightarrow> dword"
  snapshot_error :: "dword option"
  deny_thread :: "dword \<Rightarrow> dword option"
  deny_suspend :: "dword \<Rightarrow> dword option"
  deny_resume :: "dword \<Rightarrow> dword option"
  system_message :: "dword \<Rightarrow> string option"

record world =
  procs :: "dword list"
  threads :: "THREADENTRY32 list"
  susp :: "dword \<Rightarrow> nat"
  handles :: "(nat \<times> hobj) list"
  last_error :: dword
  msgbuf :: string
  stdout :: "msg list"
  trace :: "oscall list"
  faults :: faults

definition ERROR_INVALID_HANDLE :: dword where
  "ERROR_INVALID_HANDLE = 6"

definition ERROR_INVALID_PARAMETER :: dword where
  "ERROR_INVALID_PARAMETER = 87"

definition ERROR_SIGNAL_REFUSED :: dword where
  "ERROR_SIGNAL_REFUSED = 156"

definition STATUS_INVALID_HANDLE :: dword where
  "STATUS_INVALID_HANDLE = 0xC0000008"

definition MAXIMUM_SUSPEND_COUNT :: nat where
  "MAXIMUM_SUSPEND_COUNT = 127"

definition log_call :: "oscall \<Rightarrow> world \<Rightarrow> world" where
  "log_call c w = w\<lparr>trace := trace w @ [c]\<rparr>"

definition print :: "msg \<Rightarrow> world \<Rightarrow> world" where
  "print m w = w\<lparr>stdout := stdout w @ [m]\<rparr>"

definition GetLastError :: "world \<Rightarrow> dword" where
  "GetLastError w = last_error w"

text \<open>
  \<open>FormatMessageA\<close> writes the system's message for \<open>err\<close> into the static buffer
  \<open>msgbuf\<close>; when it cannot decode the code it leaves the buffer as it was.
  \<open>win32_strerror\<close> ignores its result and returns the buffer.
\<close>

definition FormatMessageA :: "dword \<Rightarrow> world \<Rightarrow> world" where
  "FormatMessageA err w =
     (case system_message (faults w) err of
        Some text \<Rightarrow> w\<lparr>msgbuf := text\<rparr>
      | None \<Rightarrow> w)"

definition win32_strerror :: "dword \<Rightarrow> world \<Rightarrow> string \<times> world" where
  "win32_strerror err w = (let w1 = FormatMessageA err w in (msgbuf w1, w1))"

text \<open>A handle value that no open handle uses.\<close>

definition fresh_handle :: "(nat \<times> hobj) list \<Rightarrow> nat" where
  "fresh_handle hs = Suc (foldr max (map fst hs) 0)"

definition resolve :: "world \<Rightarrow> handle \<Rightarrow> hobj option" where
  "resolve w h = (case h of Handle n \<Rightarrow> map_of (handles w) n | _ \<Rightarrow> None)"

text \<open>
  \<open>GetProcAddress(GetModuleHandle("ntdll"), name)\<close>: the entry point of that name, or a null
  pointer (\<open>None\<close>) with the last error set.
\<close>

definition ntdll_export :: "string \<Rightarrow> sus_res_func option" where
  "ntdll_export name =
     (if name = ''NtSuspendProcess'' then Some NtSuspendProcess
      else if name = ''NtResumeProcess'' then Some NtResumeProcess
      else None)"

definition GetProcAddress :: "string \<Rightarrow> world \<Rightarrow> sus_res_func option \<times> world" where
  "GetProcAddress name w =
     (let w1 = log_call (GetProcAddress_call name) w in
      case missing_export (faults w) name of
        Some err \<Rightarrow> (None, w1\<lparr>last_error := err\<rparr>)
      | None \<Rightarrow> (ntdll_export name, w1))"

text \<open>
  \<open>OpenProcess(PROCESS_ALL_ACCESS, FALSE, pid)\<close>: a new handle to the process, or, as the
  Win32 interface defines it, \<open>NULL\<close> when the process does not exist or access is
  refused.
\<close>

definition OpenProcess :: "dword \<Rightarrow> world \<Rightarrow> handle \<times> world" where
  "OpenProcess pid w =
     (let w1 = log_call (OpenProcess_call pid) w in
      if pid \<notin> set (procs w) then (NULL, w1\<lparr>last_error := ERROR_INVALID_PARAMETER\<rparr>)
      else case deny_process (faults w) pid of
        Some err \<Rightarrow> (NULL, w1\<lparr>last_error := err\<rparr>)
      | None \<Rightarrow>
          (Handle (fresh_handle (handles w)),
           w1\<lparr>handles := (fresh_handle (handles w), Process_object pid) # handles w\<rparr>))"

text \<open>
  \<open>NtSuspendProcess\<close> adds one suspend to every thread of the process,
  \<open>NtResumeProcess\<close> takes one away from every thread that has one. A thread's count
  does not exceed \<open>MAXIMUM_SUSPEND_COUNT\<close>.
\<close>

definition owned_by :: "dword \<Rightarrow> THREADENTRY32 list \<Rightarrow> THREADENTRY32 list" where
  "owned_by pid es = filter (\<lambda>e. th32OwnerProcessID e = pid) es"

definition tids_of :: "dword \<Rightarrow> THREADENTRY32 list \<Rightarrow> dword list" where
  "tids_of pid es = map th32ThreadID (owned_by pid es)"

definition shift_count :: "sus_res_func \<Rightarrow> nat \<Rightarrow> nat" where
  "shift_count f c =
     (case f of
        NtSuspendProcess \<Rightarrow> (if c < MAXIMUM_SUSPEND_COUNT then Suc c else c)
      | NtResumeProcess \<Rightarrow> c - 1)"

definition call_primitive :: "sus_res_func \<Rightarrow> handle \<Rightarrow> world \<Rightarrow> dword \<times> world" where
  "call_primitive f proc w =
     (let w1 = log_call (Primitive_call f proc) w in
      case resolve w proc of
        Some (Process_object pid) \<Rightarrow>
          (if nt_status (faults w) f pid \<noteq> 0 then (nt_status (faults w) f pid, w1)
           else (0, w1\<lparr>susp := (\<lambda>t. if t \<in> set (tids_of pid (threads w))
                                    then shift_count f (susp w t) else susp w t)\<rparr>))
      | _ \<Rightarrow> (STATUS_INVALID_HANDLE, w1))"

text \<open>\<open>CloseHandle\<close>; its result is ignored by the code.\<close>

definition CloseHandle :: "handle \<Rightarrow> world \<Rightarrow> world" where
  "CloseHandle h w =
     (let w1 = log_call (CloseHandle_call h) w in
      case h of
        Handle n \<Rightarrow>
          (if map_of (handles w) n = None then w1\<lparr>last_error := ERROR_INVALID_HANDLE\<rparr>
           else w1\<lparr>handles := filter (\<lambda>(k, _). k \<noteq> n) (handles w)\<rparr>)
      | _ \<Rightarrow> w1\<lparr>last_error := ERROR_INVALID_HANDLE\<rparr>)"

text \<open>
  \<open>CreateToolhelp32Snapshot(TH32CS_SNAPTHREAD, 0)\<close>: a handle to a copy of the system's
  thread table, or \<open>INVALID_HANDLE_VALUE\<close>.
\<close>

definition CreateToolhelp32Snapshot :: "world \<Rightarrow> handle \<times> world" where
  "CreateToolhelp32Snapshot w =
     (let w1 = log_call Snapshot_call w in
      case snapshot_error (faults w) of
        Some err \<Rightarrow> (INVALID_HANDLE_VALUE, w1\<lparr>last_error := err\<rparr>)
      | None \<Rightarrow>
          (Handle (fresh_handle (handles w)),
           w1\<lparr>handles := (fresh_handle (handles w), Snapshot_object (threads w)) # handles w\<rparr>))"

text \<open>
  \<open>Thread32First\<close> and \<open>Thread32Next\<close> hand out the entries of a snapshot one after the
  other and return \<open>FALSE\<close> when none is left: the entries the loop of \<open>status\<close> sees.
\<close>

definition Thread32_entries :: "handle \<Rightarrow> world \<Rightarrow> THREADENTRY32 list" where
  "Thread32_entries snapshot w =
     (case resolve w snapshot of Some (Snapshot_object es) \<Rightarrow> es | _ \<Rightarrow> [])"

text \<open>\<open>OpenThread(THREAD_SUSPEND_RESUME, FALSE, tid)\<close>: a new handle, or \<open>NULL\<close>.\<close>

definition OpenThread :: "dword \<Rightarrow> world \<Rightarrow> handle \<times> world" where
  "OpenThread tid w =
     (let w1 = log_call (OpenThread_call tid) w in
      case deny_thread (faults w) tid of
        Some err \<Rightarrow> (NULL, w1\<lparr>last_error := err\<rparr>)
      | None \<Rightarrow>
          (Handle (fresh_handle (handles w)),
           w1\<lparr>handles := (fresh_handle (handles w), Thread_object tid) # handles w\<rparr>))"

text \<open>
  \<open>SuspendThread\<close> and \<open>ResumeThread\<close> return the thread's previous suspend count, or
  \<open>(DWORD)-1\<close> with the count unchanged when the call fails. Suspending fails on a thread
  that already is at \<open>MAXIMUM_SUSPEND_COUNT\<close>; resuming a thread whose count is 0 leaves
  it at 0.
\<close>

definition SuspendThread :: "handle \<Rightarrow> world \<Rightarrow> dword \<times> world" where
  "SuspendThread h w =
     (case resolve w h of
        Some (Thread_object tid) \<Rightarrow>
          (let w1 = log_call (SuspendThread_call (Some tid)) w in
           case deny_suspend (faults w) tid of
             Some err \<Rightarrow> (- 1, w1\<lparr>last_error := err\<rparr>)
           | None \<Rightarrow>
               (if MAXIMUM_SUSPEND_COUNT \<le> susp w tid
                then (- 1, w1\<lparr>last_error := ERROR_SIGNAL_REFUSED\<rparr>)
                else (of_nat (susp w tid), w1\<lparr>susp := (susp w)(tid := Suc (susp w tid))\<rparr>)))
      | _ \<Rightarrow> (- 1, (log_call (SuspendThread_call None) w)\<lparr>last_error := ERROR_INVALID_HANDLE\<rparr>))"

definition ResumeThread :: "handle \<Rightarrow> world \<Rightarrow> dword \<times> world" where
  "ResumeThread h w =
     (case resolve w h of
        Some (Thread_object tid) \<Rightarrow>
          (let w1 = log_call (ResumeThread_call (Some tid)) w in
           case deny_resume (faults w) tid of
             Some err \<Rightarrow> (- 1, w1\<lparr>last_error := err\<rparr>)
           | None \<Rightarrow> (of_nat (susp w tid), w1\<lparr>susp := (susp w)(tid := susp w tid - 1)\<rparr>))
      | _ \<Rightarrow> (- 1, (log_call (ResumeThread_call None) w)\<lparr>last_error := ERROR_INVALID_HANDLE\<rparr>))"

section \<open>The program\<close>

text \<open>
  \<open>int apply(DWORD pid, BOOL suspend)\<close>, named \<open>apply_proc\<close> here because \<open>apply\<close> is a
  reserved word. The result is the exit status paired with the world the call leaves
  behind.
\<close>

definition apply_proc :: "dword \<Rightarrow> bool \<Rightarrow> world \<Rightarrow> int \<times> world" where
  "apply_proc pid suspend w =
     (let name = (if suspend then ''NtSuspendProcess'' else ''NtResumeProcess'') in
      case GetProcAddress name w of
        (None, w1) \<Rightarrow>
          (case win32_strerror (GetLastError w1) w1 of (text, w2) \<Rightarrow>
             (1, print (Failed_GetProcAddress name text) w2))
      | (Some func, w1) \<Rightarrow>
          (case OpenProcess pid w1 of (proc, w2) \<Rightarrow>
             if proc = INVALID_HANDLE_VALUE
             then
               (case win32_strerror (GetLastError w2) w2 of (text, w3) \<Rightarrow>
                  (1, print (Failed_OpenProcess pid text) w3))
             else
               (case call_primitive func proc w2 of (res, w3) \<Rightarrow>
                  let w4 = (if res \<noteq> 0
                            then (case win32_strerror res w3 of (text, w3') \<Rightarrow>
                                    print (Primitive_returns name pid res text) w3')
                            else w3)
                  in (if res = 0 then 0 else 1, CloseHandle proc w4))))"

text \<open>
  The \<open>while (haveThread)\<close> loop of \<open>status\<close>, over the entries still to come.
  \<open>Inl\<close> is a \<open>return 1\<close> from inside the loop, \<open>Inr\<close> carries \<open>foundThread\<close> and
  \<open>allSuspended\<close> to the code after the loop (the \<open>break\<close> included).
\<close>

fun status_loop ::
  "dword \<Rightarrow> handle \<Rightarrow> THREADENTRY32 list \<Rightarrow> bool \<Rightarrow> bool \<Rightarrow> world \<Rightarrow> world + (bool \<times> bool \<times> world)"
where
  "status_loop pid snapshot [] foundThread allSuspended w = Inr (foundThread, allSuspended, w)"
| "status_loop pid snapshot (entry # rest) foundThread allSuspended w =
     (if th32OwnerProcessID entry = pid then
        (case OpenThread (th32ThreadID entry) w of (thread, w1) \<Rightarrow>
           if thread = NULL then
             (case win32_strerror (GetLastError w1) w1 of (text, w1') \<Rightarrow>
                Inl (CloseHandle snapshot
                      (print (Failed_OpenThread (th32ThreadID entry) text) w1')))
           else
             (case SuspendThread thread w1 of (previousCount, w2) \<Rightarrow>
                if previousCount = - 1 then
                  (case win32_strerror (GetLastError w2) w2 of (text, w2') \<Rightarrow>
                     Inl (CloseHandle snapshot (CloseHandle thread
                           (print (SuspendThread_failed (th32ThreadID entry) text) w2'))))
                else
                  (case ResumeThread thread w2 of (resumeCount, w3) \<Rightarrow>
                     if resumeCount = - 1 then
                       (case win32_strerror (GetLastError w3) w3 of (text, w3') \<Rightarrow>
                          Inl (CloseHandle snapshot (CloseHandle thread
                                (print (ResumeThread_failed (th32ThreadID entry) text) w3'))))
                     else if previousCount = 0 then
                       Inr (True, False, CloseHandle thread w3)
                     else
                       status_loop pid snapshot rest True allSuspended
                         (CloseHandle thread w3))))
      else status_loop pid snapshot rest foundThread allSuspended w)"

definition status :: "dword \<Rightarrow> world \<Rightarrow> int \<times> world" where
  "status pid w =
     (case CreateToolhelp32Snapshot w of (snapshot, w1) \<Rightarrow>
        if snapshot = INVALID_HANDLE_VALUE
        then
          (case win32_strerror (GetLastError w1) w1 of (text, w1') \<Rightarrow>
             (1, print (Failed_CreateToolhelp32Snapshot text) w1'))
        else
          (case status_loop pid snapshot (Thread32_entries snapshot w1) False True w1 of
             Inl w2 \<Rightarrow> (1, w2)
           | Inr (foundThread, allSuspended, w2) \<Rightarrow>
               (let w3 = CloseHandle snapshot w2 in
                if \<not> foundThread then (1, print (No_threads_found pid) w3)
                else (0, print (Status_line (if allSuspended then ''T'' else ''R'')) w3))))"

text \<open>\<open>usage\<close> prints the three usage lines and ends the program with \<open>exit(1)\<close>.\<close>

definition usage :: "world \<Rightarrow> int \<times> world" where
  "usage w = (1, print Usage_text w)"

text \<open>
  \<open>_atoi64\<close> of the C runtime: white space, an optional sign, then decimal digits up to
  the first character that is none; 0 when there is no digit, and the nearest bound of
  the signed 64-bit range when the number lies outside it.
\<close>

definition isspace :: "char \<Rightarrow> bool" where
  "isspace c = (of_char c \<in> {32, 9, 10, 11, 12, 13 :: nat})"

definition isdigit :: "char \<Rightarrow> bool" where
  "isdigit c = (48 \<le> (of_char c :: nat) \<and> (of_char c :: nat) \<le> 57)"

fun digits_value :: "int \<Rightarrow> string \<Rightarrow> int" where
  "digits_value acc [] = acc"
| "digits_value acc (c # cs) =
     (if isdigit c then digits_value (acc * 10 + (of_char c - 48)) cs else acc)"

definition atoi64 :: "string \<Rightarrow> int" where
  "atoi64 s =
     (let s1 = dropWhile isspace s;
          v = (case s1 of
                 [] \<Rightarrow> 0
               | c # cs \<Rightarrow>
                   (if c = CHR ''-'' then - digits_value 0 cs
                    else if c = CHR ''+'' then digits_value 0 cs
                    else digits_value 0 s1))
      in max (- (2 ^ 63)) (min (2 ^ 63 - 1) v))"

datatype Command = Suspend | Resume | Status

text \<open>
  \<open>main\<close>, on the whole argument vector (\<open>argc\<close> is its length). \<open>main_pid\<close> is the
  assignment \<open>pid = _atoi64(argv[2])\<close>: the 64-bit result converted to the 32-bit
  \<open>DWORD\<close>.
\<close>

definition main_pid :: "string list \<Rightarrow> dword" where
  "main_pid argv = of_int (atoi64 (argv ! 2))"

definition main :: "string list \<Rightarrow> world \<Rightarrow> int \<times> world" where
  "main argv w =
     (if length argv \<noteq> 3 then usage w
      else
        (case (if argv ! 1 = ''suspend'' then Some Suspend
               else if argv ! 1 = ''resume'' then Some Resume
               else if argv ! 1 = ''status'' then Some Status
               else None) of
           None \<Rightarrow> usage w
         | Some cmd \<Rightarrow>
             (let pid = main_pid argv in
              case cmd of
                Suspend \<Rightarrow> apply_proc pid True w
              | Resume \<Rightarrow> apply_proc pid False w
              | Status \<Rightarrow> status pid w)))"

section \<open>Notions used in the statements\<close>

text \<open>
  The text \<open>win32_strerror\<close> returns for a code: the system's message when there is
  one, what the buffer held before otherwise.
\<close>

definition error_text :: "world \<Rightarrow> dword \<Rightarrow> string" where
  "error_text w err = (case system_message (faults w) err of Some text \<Rightarrow> text | None \<Rightarrow> msgbuf w)"

text \<open>The handle table once a handle has been closed.\<close>

definition close_table :: "handle \<Rightarrow> (nat \<times> hobj) list \<Rightarrow> (nat \<times> hobj) list" where
  "close_table h hs = (case h of Handle n \<Rightarrow> filter (\<lambda>(k, _). k \<noteq> n) hs | _ \<Rightarrow> hs)"

text \<open>The world right after a successful \<open>CreateToolhelp32Snapshot\<close>.\<close>

definition snapshot_world :: "world \<Rightarrow> world" where
  "snapshot_world w =
     w\<lparr>trace := trace w @ [Snapshot_call],
       handles := (fresh_handle (handles w), Snapshot_object (threads w)) # handles w\<rparr>"

text \<open>The four calls of one complete probe of thread \<open>t\<close> through handle \<open>n\<close>.\<close>

definition probe_calls :: "nat \<Rightarrow> dword \<Rightarrow> oscall list" where
  "probe_calls n t =
     [OpenThread_call t, SuspendThread_call (Some t), ResumeThread_call (Some t),
      CloseHandle_call (Handle n)]"

definition probe_trace :: "nat \<Rightarrow> THREADENTRY32 list \<Rightarrow> oscall list" where
  "probe_trace n es = concat (map (\<lambda>e. probe_calls n (th32ThreadID e)) es)"

text \<open>
  Of a list of entries, those up to and including the first whose thread has suspend
  count 0 (all of them when there is none).
\<close>

definition probed :: "(dword \<Rightarrow> nat) \<Rightarrow> THREADENTRY32 list \<Rightarrow> THREADENTRY32 list" where
  "probed c es =
     takeWhile (\<lambda>e. c (th32ThreadID e) \<noteq> 0) es
     @ take 1 (dropWhile (\<lambda>e. c (th32ThreadID e) \<noteq> 0) es)"

text \<open>
  The calls \<open>status\<close> may make when the threads of its target are \<open>ts\<close>: none on a
  process, and on threads only on those.
\<close>

fun status_call_ok :: "dword list \<Rightarrow> oscall \<Rightarrow> bool" where
  "status_call_ok ts (OpenThread_call t) = (t \<in> set ts)"
| "status_call_ok ts (SuspendThread_call x) = (x \<in> Some ` set ts)"
| "status_call_ok ts (ResumeThread_call x) = (x \<in> Some ` set ts)"
| "status_call_ok ts Snapshot_call = True"
| "status_call_ok ts (CloseHandle_call h) = True"
| "status_call_ok ts (GetProcAddress_call name) = False"
| "status_call_ok ts (OpenProcess_call pid) = False"
| "status_call_ok ts (Primitive_call f h) = False"

text \<open>
  What a \<open>return 1\<close> from inside the loop has printed, and what it has done to the
  suspend counts: nothing, unless it was \<open>ResumeThread\<close> that failed.
\<close>

definition loop_failure :: "dword list \<Rightarrow> world \<Rightarrow> world \<Rightarrow> msg \<Rightarrow> bool" where
  "loop_failure ts w w' m =
     (case m of
        Failed_OpenThread t x \<Rightarrow> t \<in> set ts \<and> susp w' = susp w
      | SuspendThread_failed t x \<Rightarrow> t \<in> set ts \<and> susp w' = susp w
      | ResumeThread_failed t x \<Rightarrow> t \<in> set ts \<and> susp w' = (susp w)(t := Suc (susp w t))
      | _ \<Rightarrow> False)"

text \<open>
  The thread a failure line of the loop names, and the calls of the probe that ended
  in that failure (through thread handle \<open>n\<close>).
\<close>

fun failed_thread :: "msg \<Rightarrow> dword option" where
  "failed_thread (Failed_OpenThread t x) = Some t"
| "failed_thread (SuspendThread_failed t x) = Some t"
| "failed_thread (ResumeThread_failed t x) = Some t"
| "failed_thread (Failed_GetProcAddress name x) = None"
| "failed_thread (Failed_OpenProcess pid x) = None"
| "failed_thread (Primitive_returns name pid res x) = None"
| "failed_thread (Failed_CreateToolhelp32Snapshot x) = None"
| "failed_thread (No_threads_found pid) = None"
| "failed_thread (Status_line s) = None"
| "failed_thread Usage_text = None"

fun failed_calls :: "nat \<Rightarrow> msg \<Rightarrow> oscall list" where
  "failed_calls n (Failed_OpenThread t x) = [OpenThread_call t]"
| "failed_calls n (SuspendThread_failed t x) =
     [OpenThread_call t, SuspendThread_call (Some t), CloseHandle_call (Handle n)]"
| "failed_calls n (ResumeThread_failed t x) = probe_calls n t"
| "failed_calls n (Failed_GetProcAddress name x) = []"
| "failed_calls n (Failed_OpenProcess pid x) = []"
| "failed_calls n (Primitive_returns name pid res x) = []"
| "failed_calls n (Failed_CreateToolhelp32Snapshot x) = []"
| "failed_calls n (No_threads_found pid) = []"
| "failed_calls n (Status_line s) = []"
| "failed_calls n Usage_text = []"

text \<open>The name \<open>apply\<close> looks up.\<close>

definition primitive_name :: "bool \<Rightarrow> string" where
  "primitive_name suspend = (if suspend then ''NtSuspendProcess'' else ''NtResumeProcess'')"

text \<open>The text of the operating system that a printed line carries, if any.\<close>

fun os_text_of :: "msg \<Rightarrow> string option" where
  "os_text_of (Failed_GetProcAddress name x) = Some x"
| "os_text_of (Failed_OpenProcess pid x) = Some x"
| "os_text_of (Primitive_returns name pid res x) = Some x"
| "os_text_of (Failed_CreateToolhelp32Snapshot x) = Some x"
| "os_text_of (Failed_OpenThread t x) = Some x"
| "os_text_of (SuspendThread_failed t x) = Some x"
| "os_text_of (ResumeThread_failed t x) = Some x"
| "os_text_of (No_threads_found pid) = None"
| "os_text_of (Status_line s) = None"
| "os_text_of Usage_text = None"

text \<open>
  An environment that lets the tool work on process \<open>pid\<close>: the process exists, both
  entry points are there, and no call on the process is refused.
\<close>

definition freeze_allowed :: "dword \<Rightarrow> world \<Rightarrow> bool" where
  "freeze_allowed pid w =
     (pid \<in> set (procs w)
      \<and> missing_export (faults w) ''NtSuspendProcess'' = None
      \<and> missing_export (faults w) ''NtResumeProcess'' = None
      \<and> deny_process (faults w) pid = None
      \<and> nt_status (faults w) NtSuspendProcess pid = 0
      \<and> nt_status (faults w) NtResumeProcess pid = 0)"

text \<open>... and no call on one of its threads is refused.\<close>

definition probes_allowed :: "dword \<Rightarrow> world \<Rightarrow> bool" where
  "probes_allowed pid w =
     (snapshot_error (faults w) = None
      \<and> (\<forall>t \<in> set (tids_of pid (threads w)).
            deny_thread (faults w) t = None \<and> deny_suspend (faults w) t = None
            \<and> deny_resume (faults w) t = None))"

text \<open>
  The entries \<open>status\<close> probes for target \<open>pid\<close> in world \<open>w\<close> when no call fails, and
  the handle values the snapshot and each thread are opened under.
\<close>

definition probed_entries :: "dword \<Rightarrow> world \<Rightarrow> THREADENTRY32 list" where
  "probed_entries pid w = probed (susp w) (owned_by pid (threads w))"

definition snapshot_handle :: "world \<Rightarrow> nat" where
  "snapshot_handle w = fresh_handle (handles w)"

definition thread_handle :: "world \<Rightarrow> nat" where
  "thread_handle w =
     fresh_handle ((fresh_handle (handles w), Snapshot_object (threads w)) # handles w)"

text \<open>
  The primitive \<open>apply\<close> selects, and the suspend counts after it has run on process
  \<open>pid\<close>.
\<close>

definition primitive_of :: "bool \<Rightarrow> sus_res_func" where
  "primitive_of suspend = (if suspend then NtSuspendProcess else NtResumeProcess)"

definition shifted :: "sus_res_func \<Rightarrow> dword \<Rightarrow> world \<Rightarrow> dword \<Rightarrow> nat" where
  "shifted f pid w =
     (\<lambda>t. if t \<in> set (tids_of pid (threads w)) then shift_count f (susp w t) else susp w t)"

subsection \<open>Concrete machines\<close>

text \<open>Nothing is refused; the system knows the message of error 5 only.\<close>

definition no_faults :: faults where
  "no_faults =
     \<lparr>missing_export = (\<lambda>_. None), deny_process = (\<lambda>_. None), nt_status = (\<lambda>_ _. 0),
      snapshot_error = None, deny_thread = (\<lambda>_. None), deny_suspend = (\<lambda>_. None),
      deny_resume = (\<lambda>_. None),
      system_message = (\<lambda>err. if err = 5 then Some ''Access is denied.'' else None)\<rparr>"

text \<open>
  Processes 4 and 8; process 8 has the three threads 11, 12 and 13, all running.
\<close>

definition running_machine :: world where
  "running_machine =
     \<lparr>procs = [4, 8],
      threads = [\<lparr>th32ThreadID = 10, th32OwnerProcessID = 4\<rparr>,
                 \<lparr>th32ThreadID = 11, th32OwnerProcessID = 8\<rparr>,
                 \<lparr>th32ThreadID = 12, th32OwnerProcessID = 8\<rparr>,
                 \<lparr>th32ThreadID = 13, th32OwnerProcessID = 8\<rparr>],
      susp = (\<lambda>_. 0), handles = [], last_error = 0, msgbuf = [], stdout = [], trace = [],
      faults = no_faults\<rparr>"

text \<open>The same machine with every thread of process 8 suspended once.\<close>

definition suspended_machine :: world where
  "suspended_machine = running_machine\<lparr>susp := (\<lambda>t. if t \<in> {11, 12, 13} then 1 else 0)\<rparr>"

text \<open>The running machine, on which resuming thread 11 is refused (error 5).\<close>

definition resume_refused_machine :: world where
  "resume_refused_machine =
     running_machine\<lparr>faults := no_faults\<lparr>deny_resume := (\<lambda>t. if t = 11 then Some 5 else None)\<rparr>\<rparr>"

text \<open>The suspended machine, on which opening thread 12 is refused (error 5).\<close>

definition open_refused_machine :: world where
  "open_refused_machine =
     suspended_machine\<lparr>faults := no_faults\<lparr>deny_thread := (\<lambda>t. if t = 12 then Some 5 else None)\<rparr>\<rparr>"

text \<open>The running machine, on which taking a snapshot is refused (error 5).\<close>

definition snapshot_refused_machine :: world where
  "snapshot_refused_machine =
     running_machine\<lparr>faults := no_faults\<lparr>snapshot_error := Some 5\<rparr>\<rparr>"

text \<open>
  The running machine without the two entry points (error 127, for which the system
  has no message here).
\<close>

definition no_ntdll_machine :: world where
  "no_ntdll_machine =
     running_machine\<lparr>faults := no_faults\<lparr>missing_export := (\<lambda>_. Some 127)\<rparr>\<rparr>"

text \<open>The running machine, on which suspending thread 11 is refused (error 5).\<close>

definition suspend_refused_machine :: world where
  "suspend_refused_machine =
     running_machine\<lparr>faults := no_faults\<lparr>deny_suspend := (\<lambda>t. if t = 11 then Some 5 else None)\<rparr>\<rparr>"

section \<open>Handles and suspend counts\<close>

lemma foldr_max_ge: "k \<in> set ks \<Longrightarrow> k \<le> foldr max ks (0::nat)"
  by (induction ks) (auto simp: max_def)

lemma fresh_handle_unused: "fresh_handle hs \<notin> fst ` set hs"
proof
  assume "fresh_handle hs \<in> fst ` set hs"
  then have "fresh_handle hs \<in> set (map fst hs)" by simp
  then have "fresh_handle hs \<le> foldr max (map fst hs) 0" by (rule foldr_max_ge)
  then show False by (simp add: fresh_handle_def)
qed

lemma map_of_fresh_handle [simp]: "map_of hs (fresh_handle hs) = None"
  using fresh_handle_unused [of hs] by (simp add: map_of_eq_None_iff)

lemma filter_unused_key: "k \<notin> fst ` set hs \<Longrightarrow> filter (\<lambda>(k', _). k' \<noteq> k) hs = hs"
  by (induction hs) auto

lemma filter_fresh_handle [simp]: "filter (\<lambda>(k, _). k \<noteq> fresh_handle hs) hs = hs"
  by (rule filter_unused_key [OF fresh_handle_unused])

lemma count_word_unat: "n \<le> 127 \<Longrightarrow> unat (of_nat n :: dword) = n"
  by (simp add: unat_of_nat)

lemma unat_failure: "unat (- 1 :: dword) = 4294967295"
  by (simp add: unsigned_minus_1_eq_mask mask_eq_exp_minus_1)

lemma count_word_not_failure: "n \<le> 127 \<Longrightarrow> (of_nat n :: dword) \<noteq> - 1"
proof
  assume n: "n \<le> 127" and "(of_nat n :: dword) = - 1"
  then have "unat (of_nat n :: dword) = unat (- 1 :: dword)" by simp
  with n show False by (simp add: count_word_unat unat_failure)
qed

lemma count_word_zero: "n \<le> 127 \<Longrightarrow> ((of_nat n :: dword) = 0) = (n = 0)"
proof
  assume n: "n \<le> 127" and "(of_nat n :: dword) = 0"
  then have "unat (of_nat n :: dword) = unat (0 :: dword)" by simp
  with n show "n = 0" by (simp add: count_word_unat)
qed simp

lemma susp_CloseHandle [simp]: "susp (CloseHandle h w) = susp w"
  and stdout_CloseHandle [simp]: "stdout (CloseHandle h w) = stdout w"
  and faults_CloseHandle [simp]: "faults (CloseHandle h w) = faults w"
  and threads_CloseHandle [simp]: "threads (CloseHandle h w) = threads w"
  and procs_CloseHandle [simp]: "procs (CloseHandle h w) = procs w"
  and trace_CloseHandle [simp]: "trace (CloseHandle h w) = trace w @ [CloseHandle_call h]"
  by (simp_all add: CloseHandle_def Let_def log_call_def split: handle.splits)

lemma CloseHandle_Handle:
  "CloseHandle (Handle n) w =
     (if map_of (handles w) n = None
      then w\<lparr>trace := trace w @ [CloseHandle_call (Handle n)],
             last_error := ERROR_INVALID_HANDLE\<rparr>
      else w\<lparr>trace := trace w @ [CloseHandle_call (Handle n)],
             handles := filter (\<lambda>(k, _). k \<noteq> n) (handles w)\<rparr>)"
  by (simp add: CloseHandle_def Let_def log_call_def)

lemma handles_CloseHandle [simp]: "handles (CloseHandle h w) = close_table h (handles w)"
  by (auto simp: CloseHandle_def Let_def log_call_def close_table_def map_of_eq_None_iff
      filter_unused_key split: handle.splits)

lemma close_table_fresh [simp]:
  "close_table (Handle (fresh_handle hs)) ((fresh_handle hs, obj) # hs) = hs"
  by (simp add: close_table_def)

lemma snapshot_world_fields [simp]:
  "susp (snapshot_world w) = susp w"
  "stdout (snapshot_world w) = stdout w"
  "faults (snapshot_world w) = faults w"
  "threads (snapshot_world w) = threads w"
  "procs (snapshot_world w) = procs w"
  "trace (snapshot_world w) = trace w @ [Snapshot_call]"
  "handles (snapshot_world w) =
     (fresh_handle (handles w), Snapshot_object (threads w)) # handles w"
  by (simp_all add: snapshot_world_def)

lemma print_fields [simp]:
  "susp (print m w) = susp w"
  "stdout (print m w) = stdout w @ [m]"
  "faults (print m w) = faults w"
  "threads (print m w) = threads w"
  "procs (print m w) = procs w"
  "trace (print m w) = trace w"
  "handles (print m w) = handles w"
  by (simp_all add: print_def)

lemma win32_strerror_eq:
  "win32_strerror err w = (error_text w err, w\<lparr>msgbuf := error_text w err\<rparr>)"
  by (simp add: win32_strerror_def FormatMessageA_def error_text_def Let_def split: option.splits)

lemma error_text_update [simp]:
  "error_text (w\<lparr>trace := tr\<rparr>) err = error_text w err"
  "error_text (w\<lparr>last_error := e\<rparr>) err = error_text w err"
  "error_text (w\<lparr>handles := hs\<rparr>) err = error_text w err"
  "error_text (w\<lparr>susp := c\<rparr>) err = error_text w err"
  "error_text (w\<lparr>stdout := out\<rparr>) err = error_text w err"
  by (simp_all add: error_text_def split: option.splits)

lemma probed_Nil [simp]: "probed c [] = []"
  by (simp add: probed_def)

lemma probed_Cons [simp]:
  "probed c (e # es) = (if c (th32ThreadID e) = 0 then [e] else e # probed c es)"
  by (simp add: probed_def)

lemma probe_trace_simps [simp]:
  "probe_trace n [] = []"
  "probe_trace n (e # es) = probe_calls n (th32ThreadID e) @ probe_trace n es"
  by (simp_all add: probe_trace_def)

lemma owned_by_simps [simp]:
  "owned_by pid [] = []"
  "owned_by pid (e # es) =
     (if th32OwnerProcessID e = pid then e # owned_by pid es else owned_by pid es)"
  by (simp_all add: owned_by_def)

lemma tids_of_simps [simp]:
  "tids_of pid [] = []"
  "tids_of pid (e # es) =
     (if th32OwnerProcessID e = pid then th32ThreadID e # tids_of pid es else tids_of pid es)"
  by (simp_all add: tids_of_def)

lemma status_call_ok_mono:
  "status_call_ok ts c \<Longrightarrow> set ts \<subseteq> set ts' \<Longrightarrow> status_call_ok ts' c"
  by (cases c) auto

lemma probe_calls_ok: "t \<in> set ts \<Longrightarrow> \<forall>c \<in> set (probe_calls n t). status_call_ok ts c"
  by (simp add: probe_calls_def)

section \<open>One turn of the loop\<close>

lemma status_loop_skip:
  "th32OwnerProcessID e \<noteq> pid \<Longrightarrow>
   status_loop pid snap (e # rest) f a w = status_loop pid snap rest f a w"
  by simp

lemma status_loop_owned:
  "th32OwnerProcessID e = pid \<Longrightarrow>
   status_loop pid snap (e # rest) f a w =
     (let t = th32ThreadID e; n = fresh_handle (handles w) in
      case deny_thread (faults w) t of
        Some err \<Rightarrow>
          Inl (CloseHandle snap
                (w\<lparr>trace := trace w @ [OpenThread_call t],
                   last_error := err,
                   msgbuf := error_text w err,
                   stdout := stdout w @ [Failed_OpenThread t (error_text w err)]\<rparr>))
      | None \<Rightarrow>
         (case deny_suspend (faults w) t of
            Some err \<Rightarrow>
              Inl (CloseHandle snap
                    (w\<lparr>last_error := err,
                       msgbuf := error_text w err,
                       stdout := stdout w @ [SuspendThread_failed t (error_text w err)],
                       trace := trace w @ [OpenThread_call t, SuspendThread_call (Some t),
                                           CloseHandle_call (Handle n)]\<rparr>))
          | None \<Rightarrow>
             if MAXIMUM_SUSPEND_COUNT \<le> susp w t then
               Inl (CloseHandle snap
                    (w\<lparr>last_error := ERROR_SIGNAL_REFUSED,
                       msgbuf := error_text w ERROR_SIGNAL_REFUSED,
                       stdout := stdout w @
                         [SuspendThread_failed t (error_text w ERROR_SIGNAL_REFUSED)],
                       trace := trace w @ [OpenThread_call t, SuspendThread_call (Some t),
                                           CloseHandle_call (Handle n)]\<rparr>))
             else
               (case deny_resume (faults w) t of
                  Some err \<Rightarrow>
                    Inl (CloseHandle snap
                          (w\<lparr>susp := (susp w)(t := Suc (susp w t)),
                             last_error := err,
                             msgbuf := error_text w err,
                             stdout := stdout w @ [ResumeThread_failed t (error_text w err)],
                             trace := trace w @ probe_calls n t\<rparr>))
                | None \<Rightarrow>
                    if susp w t = 0
                    then Inr (True, False, w\<lparr>trace := trace w @ probe_calls n t\<rparr>)
                    else status_loop pid snap rest True a
                           (w\<lparr>trace := trace w @ probe_calls n t\<rparr>))))"
  by (simp add: Let_def OpenThread_def SuspendThread_def ResumeThread_def CloseHandle_Handle
      log_call_def print_def resolve_def GetLastError_def win32_strerror_eq probe_calls_def
      count_word_not_failure count_word_zero MAXIMUM_SUSPEND_COUNT_def fun_upd_idem
      del: of_nat_Suc split: option.splits)

declare status_loop.simps(2) [simp del]

section \<open>The loop as a whole\<close>

text \<open>
  When the loop hands over to the code after it, it has probed exactly the entries of
  the target up to the first running thread and has left everything but the log as it
  was.
\<close>

lemma status_loop_Inr:
  "status_loop pid snap es f a w = Inr (f', a', w') \<Longrightarrow>
     w' = w\<lparr>trace := trace w
            @ probe_trace (fresh_handle (handles w)) (probed (susp w) (owned_by pid es))\<rparr>
     \<and> f' = (f \<or> owned_by pid es \<noteq> [])
     \<and> a' = (a \<and> (\<forall>e \<in> set (owned_by pid es). susp w (th32ThreadID e) \<noteq> 0))"
proof (induction es arbitrary: f w)
  case Nil
  then show ?case by simp
next
  case (Cons e es)
  show ?case
  proof (cases "th32OwnerProcessID e = pid")
    case False
    with Cons.prems have "status_loop pid snap es f a w = Inr (f', a', w')"
      by (simp add: status_loop_skip)
    from Cons.IH [OF this] False show ?thesis by simp
  next
    case True
    let ?t = "th32ThreadID e"
    let ?w1 = "w\<lparr>trace := trace w @ probe_calls (fresh_handle (handles w)) ?t\<rparr>"
    show ?thesis
    proof (cases "susp w ?t = 0")
      case zero: True
      with Cons.prems True show ?thesis
        by (simp add: status_loop_owned Let_def split: option.splits if_splits)
    next
      case pos: False
      with Cons.prems True have "status_loop pid snap es True a ?w1 = Inr (f', a', w')"
        by (simp add: status_loop_owned Let_def split: option.splits if_splits)
      from Cons.IH [OF this] True pos show ?thesis by simp
    qed
  qed
qed

text \<open>An error return from inside the loop: one line printed, the snapshot closed.\<close>

lemma status_loop_Inl:
  "status_loop pid snap es f a w = Inl w' \<Longrightarrow>
     handles w' = close_table snap (handles w)
     \<and> faults w' = faults w \<and> threads w' = threads w \<and> procs w' = procs w
     \<and> (\<exists>m. stdout w' = stdout w @ [m] \<and> loop_failure (tids_of pid es) w w' m)
     \<and> (\<exists>new. trace w' = trace w @ new @ [CloseHandle_call snap]
            \<and> (\<forall>c \<in> set new. status_call_ok (tids_of pid es) c))"
proof (induction es arbitrary: f w)
  case Nil
  then show ?case by simp
next
  case (Cons e es)
  show ?case
  proof (cases "th32OwnerProcessID e = pid")
    case False
    with Cons.prems have "status_loop pid snap es f a w = Inl w'"
      by (simp add: status_loop_skip)
    from Cons.IH [OF this] False show ?thesis by simp
  next
    case True
    let ?t = "th32ThreadID e"
    let ?n = "fresh_handle (handles w)"
    let ?w1 = "w\<lparr>trace := trace w @ probe_calls ?n ?t\<rparr>"
    show ?thesis
    proof (cases "deny_thread (faults w) ?t = None \<and> deny_suspend (faults w) ?t = None
        \<and> \<not> MAXIMUM_SUSPEND_COUNT \<le> susp w ?t \<and> deny_resume (faults w) ?t = None")
      case ok: True
      with Cons.prems True have rec: "status_loop pid snap es True a ?w1 = Inl w'"
        by (simp add: status_loop_owned Let_def split: if_splits)
      note IH = Cons.IH [OF rec]
      from IH obtain m where m: "stdout w' = stdout w @ [m]"
        "loop_failure (tids_of pid es) ?w1 w' m"
        by auto
      from IH obtain new where new:
        "trace w' = trace w @ (probe_calls ?n ?t @ new) @ [CloseHandle_call snap]"
        "\<forall>c \<in> set new. status_call_ok (tids_of pid es) c"
        by auto
      have sub: "set (tids_of pid es) \<subseteq> set (tids_of pid (e # es))" by auto
      from m(2) have "loop_failure (tids_of pid (e # es)) w w' m"
        by (auto simp: loop_failure_def split: msg.splits)
      with m(1) have 1:
        "\<exists>m. stdout w' = stdout w @ [m] \<and> loop_failure (tids_of pid (e # es)) w w' m"
        by blast
      from new(2) sub have "\<forall>c \<in> set new. status_call_ok (tids_of pid (e # es)) c"
        by (blast intro: status_call_ok_mono)
      moreover from True
      have "\<forall>c \<in> set (probe_calls ?n ?t). status_call_ok (tids_of pid (e # es)) c"
        by (intro probe_calls_ok) simp
      ultimately
      have "\<forall>c \<in> set (probe_calls ?n ?t @ new). status_call_ok (tids_of pid (e # es)) c"
        by auto
      with new(1) have 2: "\<exists>new. trace w' = trace w @ new @ [CloseHandle_call snap]
            \<and> (\<forall>c \<in> set new. status_call_ok (tids_of pid (e # es)) c)"
        by blast
      from IH 1 2 show ?thesis by simp
    next
      case False
      with Cons.prems True show ?thesis
        by (auto simp: status_loop_owned Let_def loop_failure_def probe_calls_def
            split: option.splits if_splits)
    qed
  qed
qed

section \<open>The status operation around the loop\<close>

lemma status_snapshot_failed:
  "snapshot_error (faults w) = Some err \<Longrightarrow>
   status pid w =
     (1, w\<lparr>trace := trace w @ [Snapshot_call], last_error := err,
           msgbuf := error_text w err,
           stdout := stdout w @ [Failed_CreateToolhelp32Snapshot (error_text w err)]\<rparr>)"
  by (simp add: status_def CreateToolhelp32Snapshot_def Let_def log_call_def print_def
      GetLastError_def win32_strerror_eq)

lemma status_snapshot_ok:
  "snapshot_error (faults w) = None \<Longrightarrow>
   status pid w =
     (case status_loop pid (Handle (fresh_handle (handles w))) (threads w) False True
             (snapshot_world w) of
        Inl w2 \<Rightarrow> (1, w2)
      | Inr (foundThread, allSuspended, w2) \<Rightarrow>
          (if \<not> foundThread
           then (1, print (No_threads_found pid)
                      (CloseHandle (Handle (fresh_handle (handles w))) w2))
           else (0, print (Status_line (if allSuspended then ''T'' else ''R''))
                      (CloseHandle (Handle (fresh_handle (handles w))) w2))))"
  by (simp add: status_def CreateToolhelp32Snapshot_def Let_def log_call_def snapshot_world_def
      Thread32_entries_def resolve_def split: sum.splits)

lemma status_handles: "handles (snd (status pid w)) = handles w"
proof (cases "snapshot_error (faults w)")
  case (Some err)
  then show ?thesis by (simp add: status_snapshot_failed)
next
  case None
  show ?thesis
  proof (cases "status_loop pid (Handle (fresh_handle (handles w))) (threads w) False True
             (snapshot_world w)")
    case (Inl w2)
    from status_loop_Inl [OF Inl] None Inl show ?thesis
      by (simp add: status_snapshot_ok)
  next
    case (Inr r)
    obtain f a w2 where r: "r = (f, a, w2)" by (cases r)
    from status_loop_Inr [OF Inr [unfolded r]] None Inr r show ?thesis
      by (simp add: status_snapshot_ok)
  qed
qed

lemma apply_proc_handles: "handles (snd (apply_proc pid suspend w)) = handles w"
  by (simp add: apply_proc_def GetProcAddress_def OpenProcess_def call_primitive_def Let_def
      log_call_def resolve_def close_table_def win32_strerror_eq
      split: option.splits hobj.splits)

lemma status_loop_none:
  "owned_by pid es = [] \<Longrightarrow> status_loop pid snap es f a w = Inr (f, a, w)"
proof (induction es)
  case Nil
  then show ?case by simp
next
  case (Cons e es)
  then show ?case by (simp add: status_loop.simps(2) split: if_splits)
qed

lemma probed_all_suspended:
  "(\<forall>e \<in> set (probed c es). c (th32ThreadID e) \<noteq> 0) = (\<forall>e \<in> set es. c (th32ThreadID e) \<noteq> 0)"
  by (induction es) auto

lemma status_loop_allowed:
  "\<forall>t \<in> set (tids_of pid es).
      deny_thread (faults w) t = None \<and> deny_suspend (faults w) t = None
      \<and> deny_resume (faults w) t = None \<and> susp w t < MAXIMUM_SUSPEND_COUNT \<Longrightarrow>
   \<exists>r. status_loop pid snap es f a w = Inr r"
proof (induction es arbitrary: f w)
  case Nil
  then show ?case by simp
next
  case (Cons e es)
  show ?case
  proof (cases "th32OwnerProcessID e = pid")
    case False
    with Cons.prems have "\<exists>r. status_loop pid snap es f a w = Inr r"
      by (intro Cons.IH) simp
    with False show ?thesis by (simp add: status_loop_skip)
  next
    case True
    let ?w1 = "w\<lparr>trace := trace w @ probe_calls (fresh_handle (handles w)) (th32ThreadID e)\<rparr>"
    from Cons.prems True have "\<exists>r. status_loop pid snap es True a ?w1 = Inr r"
      by (intro Cons.IH) simp
    with Cons.prems True show ?thesis
      by (auto simp: status_loop_owned Let_def)
  qed
qed

lemma status_completed:
  assumes "snapshot_error (faults w) = None"
    and "status_loop pid (Handle (fresh_handle (handles w))) (threads w) False True
           (snapshot_world w) = Inr r"
  shows "status pid w =
     (if owned_by pid (threads w) = [] then 1 else 0,
      w\<lparr>trace := trace w @ [Snapshot_call]
           @ probe_trace (fresh_handle ((fresh_handle (handles w), Snapshot_object (threads w)) # handles w))
               (probed (susp w) (owned_by pid (threads w)))
           @ [CloseHandle_call (Handle (fresh_handle (handles w)))],
        stdout := stdout w @
           [if owned_by pid (threads w) = [] then No_threads_found pid
            else Status_line (if \<forall>e \<in> set (owned_by pid (threads w)). susp w (th32ThreadID e) \<noteq> 0
                              then ''T'' else ''R'')]\<rparr>)"
proof -
  obtain f a w2 where r: "r = (f, a, w2)" by (cases r)
  from status_loop_Inr [OF assms(2) [unfolded r]] assms r show ?thesis
    by (simp add: status_snapshot_ok CloseHandle_Handle print_def snapshot_world_def)
qed

lemma set_probed: "set (probed c es) \<subseteq> set es"
  by (induction es) auto

lemma probed_split:
  "\<exists>e \<in> set es. c (th32ThreadID e) = 0 \<Longrightarrow>
   \<exists>before e rest. es = before @ e # rest \<and> probed c es = before @ [e]
      \<and> c (th32ThreadID e) = 0 \<and> (\<forall>b \<in> set before. c (th32ThreadID b) \<noteq> 0)"
proof (induction es)
  case Nil
  then show ?case by simp
next
  case (Cons x es)
  show ?case
  proof (cases "c (th32ThreadID x) = 0")
    case True
    then have "x # es = [] @ x # es \<and> probed c (x # es) = [] @ [x]
        \<and> c (th32ThreadID x) = 0 \<and> (\<forall>b \<in> set []. c (th32ThreadID b) \<noteq> 0)"
      by simp
    then show ?thesis by blast
  next
    case False
    with Cons.prems have "\<exists>e \<in> set es. c (th32ThreadID e) = 0" by auto
    from Cons.IH [OF this] obtain before e rest where
      "es = before @ e # rest" "probed c es = before @ [e]" "c (th32ThreadID e) = 0"
      "\<forall>b \<in> set before. c (th32ThreadID b) \<noteq> 0"
      by blast
    with False have "x # es = (x # before) @ e # rest \<and> probed c (x # es) = (x # before) @ [e]
        \<and> c (th32ThreadID e) = 0 \<and> (\<forall>b \<in> set (x # before). c (th32ThreadID b) \<noteq> 0)"
      by simp
    then show ?thesis by blast
  qed
qed

lemma probe_trace_ok:
  "set es \<subseteq> set es' \<Longrightarrow>
   \<forall>c \<in> set (probe_trace n es). status_call_ok (map th32ThreadID es') c"
  by (induction es) (auto simp: probe_calls_def)

lemma status_exit_code:
  "probes_allowed pid w \<Longrightarrow>
   \<forall>t \<in> set (tids_of pid (threads w)). susp w t < MAXIMUM_SUSPEND_COUNT \<Longrightarrow>
   owned_by pid (threads w) \<noteq> [] \<Longrightarrow> fst (status pid w) = 0"
proof -
  assume a: "probes_allowed pid w"
    and c: "\<forall>t \<in> set (tids_of pid (threads w)). susp w t < MAXIMUM_SUSPEND_COUNT"
    and o: "owned_by pid (threads w) \<noteq> []"
  from a c have "\<exists>r. status_loop pid (Handle (fresh_handle (handles w))) (threads w) False True
           (snapshot_world w) = Inr r"
    by (intro status_loop_allowed) (simp add: probes_allowed_def)
  then obtain r where "status_loop pid (Handle (fresh_handle (handles w))) (threads w) False True
           (snapshot_world w) = Inr r" ..
  with a o show ?thesis by (simp add: status_completed probes_allowed_def)
qed

lemma status_exit_0:
  assumes "fst (status pid w) = 0"
  shows "snapshot_error (faults w) = None \<and> owned_by pid (threads w) \<noteq> [] \<and>
    snd (status pid w) =
      w\<lparr>trace := trace w @ [Snapshot_call]
           @ probe_trace (thread_handle w) (probed_entries pid w)
           @ [CloseHandle_call (Handle (snapshot_handle w))],
        stdout := stdout w @
           [Status_line (if \<forall>e \<in> set (owned_by pid (threads w)). susp w (th32ThreadID e) \<noteq> 0
                         then ''T'' else ''R'')]\<rparr>"
proof (cases "snapshot_error (faults w)")
  case (Some err)
  with assms show ?thesis by (simp add: status_snapshot_failed)
next
  case None
  show ?thesis
  proof (cases "status_loop pid (Handle (fresh_handle (handles w))) (threads w) False True
             (snapshot_world w)")
    case (Inl w2)
    with assms None show ?thesis by (simp add: status_snapshot_ok)
  next
    case (Inr r)
    from assms status_completed [OF None Inr] None show ?thesis
      by (simp add: thread_handle_def snapshot_handle_def probed_entries_def split: if_splits)
  qed
qed

lemma status_message:
  "\<exists>m. stdout (snd (status pid w)) = stdout w @ [m]
     \<and> (case m of
          ResumeThread_failed t x \<Rightarrow>
            fst (status pid w) = 1 \<and> t \<in> set (tids_of pid (threads w))
            \<and> susp (snd (status pid w)) = (susp w)(t := Suc (susp w t))
        | _ \<Rightarrow> susp (snd (status pid w)) = susp w)"
proof (cases "snapshot_error (faults w)")
  case (Some err)
  then show ?thesis by (simp add: status_snapshot_failed)
next
  case None
  show ?thesis
  proof (cases "status_loop pid (Handle (fresh_handle (handles w))) (threads w) False True
             (snapshot_world w)")
    case (Inl w2)
    from status_loop_Inl [OF Inl] obtain m where
      "stdout w2 = stdout w @ [m]" "loop_failure (tids_of pid (threads w)) (snapshot_world w) w2 m"
      by auto
    then have "stdout w2 = stdout w @ [m]
     \<and> (case m of
          ResumeThread_failed t x \<Rightarrow>
            t \<in> set (tids_of pid (threads w)) \<and> susp w2 = (susp w)(t := Suc (susp w t))
        | _ \<Rightarrow> susp w2 = susp w)"
      by (simp add: loop_failure_def split: msg.splits)
    with None Inl show ?thesis by (auto simp: status_snapshot_ok split: msg.splits)
  next
    case (Inr r)
    from status_completed [OF None Inr] show ?thesis by simp
  qed
qed

lemma status_calls:
  "\<exists>new. trace (snd (status pid w)) = trace w @ new
     \<and> (\<forall>c \<in> set new. status_call_ok (tids_of pid (threads w)) c)"
proof (cases "snapshot_error (faults w)")
  case (Some err)
  then have "trace (snd (status pid w)) = trace w @ [Snapshot_call]"
    by (simp add: status_snapshot_failed)
  moreover have "\<forall>c \<in> set [Snapshot_call]. status_call_ok (tids_of pid (threads w)) c" by simp
  ultimately show ?thesis by blast
next
  case None
  show ?thesis
  proof (cases "status_loop pid (Handle (fresh_handle (handles w))) (threads w) False True
             (snapshot_world w)")
    case (Inl w2)
    from status_loop_Inl [OF Inl] obtain new where
      new: "trace w2 = trace w @ (Snapshot_call # new @ [CloseHandle_call (Handle (fresh_handle (handles w)))])"
        "\<forall>c \<in> set new. status_call_ok (tids_of pid (threads w)) c"
      by auto
    from new(2) have "\<forall>c \<in> set (Snapshot_call # new @ [CloseHandle_call (Handle (fresh_handle (handles w)))]).
        status_call_ok (tids_of pid (threads w)) c"
      by auto
    with new(1) None Inl show ?thesis by (simp add: status_snapshot_ok)
  next
    case (Inr r)
    let ?new = "[Snapshot_call]
           @ probe_trace (fresh_handle ((fresh_handle (handles w), Snapshot_object (threads w)) # handles w))
               (probed (susp w) (owned_by pid (threads w)))
           @ [CloseHandle_call (Handle (fresh_handle (handles w)))]"
    have "set (probed (susp w) (owned_by pid (threads w))) \<subseteq> set (owned_by pid (threads w))"
      by (rule set_probed)
    from probe_trace_ok [OF this]
    have "\<forall>c \<in> set ?new. status_call_ok (tids_of pid (threads w)) c"
      by (auto simp: tids_of_def)
    moreover from status_completed [OF None Inr]
    have "trace (snd (status pid w)) = trace w @ ?new" by simp
    ultimately show ?thesis by blast
  qed
qed

lemma foreign_tid:
  "distinct (map th32ThreadID es) \<Longrightarrow> e \<in> set es \<Longrightarrow> th32OwnerProcessID e \<noteq> pid \<Longrightarrow>
   th32ThreadID e \<notin> set (tids_of pid es)"
proof
  assume d: "distinct (map th32ThreadID es)" and e: "e \<in> set es"
    and o: "th32OwnerProcessID e \<noteq> pid" and "th32ThreadID e \<in> set (tids_of pid es)"
  then obtain e' where e': "e' \<in> set es" "th32OwnerProcessID e' = pid"
    "th32ThreadID e' = th32ThreadID e"
    by (auto simp: tids_of_def owned_by_def)
  from d have "inj_on th32ThreadID (set es)" by (simp add: distinct_map)
  with e e'(1,3) have "e' = e" by (auto dest: inj_onD)
  with e'(2) o show False by simp
qed

lemma count_probe_trace:
  "count_list (probe_trace n es) (SuspendThread_call (Some t)) = count_list (map th32ThreadID es) t"
  "count_list (probe_trace n es) (ResumeThread_call (Some t)) = count_list (map th32ThreadID es) t"
  "count_list (probe_trace n es) (OpenThread_call t) = count_list (map th32ThreadID es) t"
  by (induction es) (auto simp: probe_calls_def)

subsection \<open>Evaluation on the concrete machines\<close>

lemmas machine_defs = running_machine_def no_faults_def

lemmas os_defs = CreateToolhelp32Snapshot_def Thread32_entries_def OpenThread_def
  SuspendThread_def ResumeThread_def CloseHandle_def OpenProcess_def GetProcAddress_def
  call_primitive_def ntdll_export_def log_call_def print_def resolve_def fresh_handle_def
  GetLastError_def win32_strerror_def FormatMessageA_def MAXIMUM_SUSPEND_COUNT_def shift_count_def
  tids_of_def owned_by_def Let_def

section \<open>The whole-process operation\<close>

lemma apply_proc_exit_0:
  assumes "fst (apply_proc pid suspend w) = 0"
  shows "susp (snd (apply_proc pid suspend w)) = shifted (primitive_of suspend) pid w"
    and "faults (snd (apply_proc pid suspend w)) = faults w"
    and "threads (snd (apply_proc pid suspend w)) = threads w"
    and "procs (snd (apply_proc pid suspend w)) = procs w"
    and "stdout (snd (apply_proc pid suspend w)) = stdout w"
    and "pid \<in> set (procs w)"
  using assms
  by (auto simp: apply_proc_def GetProcAddress_def OpenProcess_def call_primitive_def Let_def
      log_call_def resolve_def ntdll_export_def primitive_of_def shifted_def print_def
      STATUS_INVALID_HANDLE_def win32_strerror_eq
      split: option.splits hobj.splits if_splits)

lemma apply_proc_allowed:
  "freeze_allowed pid w \<Longrightarrow> fst (apply_proc pid suspend w) = 0"
  by (simp add: freeze_allowed_def apply_proc_def GetProcAddress_def OpenProcess_def
      call_primitive_def Let_def log_call_def resolve_def ntdll_export_def)


lemma probed_first: "es \<noteq> [] \<Longrightarrow> c (th32ThreadID (hd es)) = 0 \<Longrightarrow> probed c es = [hd es]"
  by (cases es) auto

lemma status_without_threads:
  assumes "snapshot_error (faults w) = None"
    and "\<forall>e \<in> set (threads w). th32OwnerProcessID e \<noteq> P"
  shows "status P w =
     (1, w\<lparr>trace := trace w @ [Snapshot_call, CloseHandle_call (Handle (snapshot_handle w))],
           stdout := stdout w @ [No_threads_found P]\<rparr>)"
proof -
  from assms(2) have none: "owned_by P (threads w) = []"
    by (simp add: owned_by_def)
  then have "status_loop P (Handle (fresh_handle (handles w))) (threads w) False True
      (snapshot_world w) = Inr (False, True, snapshot_world w)"
    by (rule status_loop_none)
  from status_completed [OF assms(1) this] none show ?thesis
    by (simp add: snapshot_handle_def)
qed

lemma suspended_counts:
  assumes run: "\<forall>e \<in> set (owned_by P (threads w)). susp w (th32ThreadID e) = 0"
    and s: "fst (apply_proc P True w) = 0"
  shows "\<forall>e \<in> set (owned_by P (threads w)). susp (snd (apply_proc P True w)) (th32ThreadID e) = 1"
  using run
  by (simp add: apply_proc_exit_0 [OF s] shifted_def primitive_of_def shift_count_def
      MAXIMUM_SUSPEND_COUNT_def tids_of_def)

lemma resumed_counts:
  assumes run: "\<forall>e \<in> set (owned_by P (threads w)). susp w (th32ThreadID e) = 0"
    and s: "fst (apply_proc P True w) = 0"
    and r: "fst (apply_proc P False (snd (apply_proc P True w))) = 0"
  shows "susp (snd (apply_proc P False (snd (apply_proc P True w)))) = susp w"
proof
  fix t
  from run have "t \<in> set (tids_of P (threads w)) \<Longrightarrow> susp w t = 0"
    by (auto simp: tids_of_def)
  then show "susp (snd (apply_proc P False (snd (apply_proc P True w)))) t = susp w t"
    by (simp add: apply_proc_exit_0 [OF r] apply_proc_exit_0 [OF s] shifted_def primitive_of_def
        shift_count_def MAXIMUM_SUSPEND_COUNT_def)
qed

subsection \<open>The argument parser on examples\<close>

lemma atoi64_example: "atoi64 ''4294967297'' = 4294967297"
  by (simp add: atoi64_def isspace_def isdigit_def)

lemma atoi64_example2: "atoi64 ''  -12x'' = - 12"
  by (simp add: atoi64_def isspace_def isdigit_def)

lemma atoi64_range: "- (2 ^ 63) \<le> atoi64 s \<and> atoi64 s \<le> 2 ^ 63 - 1"
  by (simp add: atoi64_def Let_def)

section \<open>The calls of a failed probe\<close>

lemma count_list_distinct: "distinct xs \<Longrightarrow> count_list xs x \<le> 1"
  by (induction xs) auto

lemma count_failed_calls:
  "count_list (failed_calls n m) (SuspendThread_call (Some t))
     = (if (\<exists>x. m = SuspendThread_failed t x) \<or> (\<exists>x. m = ResumeThread_failed t x) then 1 else 0)"
  "count_list (failed_calls n m) (ResumeThread_call (Some t))
     = (if \<exists>x. m = ResumeThread_failed t x then 1 else 0)"
  by (cases m; auto simp: probe_calls_def)+

lemma status_loop_Inl_calls:
  "status_loop pid snap es f a w = Inl w' \<Longrightarrow>
   \<exists>done e rest m.
       owned_by pid es = done @ e # rest
     \<and> (\<forall>d \<in> set done. susp w (th32ThreadID d) \<noteq> 0)
     \<and> stdout w' = stdout w @ [m]
     \<and> failed_thread m = Some (th32ThreadID e)
     \<and> trace w' = trace w @ probe_trace (fresh_handle (handles w)) done
                    @ failed_calls (fresh_handle (handles w)) m @ [CloseHandle_call snap]"
proof (induction es arbitrary: f w)
  case Nil
  then show ?case by simp
next
  case (Cons x es)
  show ?case
  proof (cases "th32OwnerProcessID x = pid")
    case False
    with Cons.prems have "status_loop pid snap es f a w = Inl w'"
      by (simp add: status_loop_skip)
    from Cons.IH [OF this] False show ?thesis by simp
  next
    case True
    let ?t = "th32ThreadID x"
    let ?n = "fresh_handle (handles w)"
    let ?w1 = "w\<lparr>trace := trace w @ probe_calls ?n ?t\<rparr>"
    show ?thesis
    proof (cases "deny_thread (faults w) ?t = None \<and> deny_suspend (faults w) ?t = None
        \<and> \<not> MAXIMUM_SUSPEND_COUNT \<le> susp w ?t \<and> deny_resume (faults w) ?t = None")
      case ok: True
      with Cons.prems True have pos: "susp w ?t \<noteq> 0"
        and "status_loop pid snap es True a ?w1 = Inl w'"
        by (auto simp: status_loop_owned Let_def split: if_splits)
      from Cons.IH [OF this(2)] obtain done' e rest m where
        "owned_by pid es = done' @ e # rest"
        "\<forall>d \<in> set done'. susp w (th32ThreadID d) \<noteq> 0"
        "stdout w' = stdout w @ [m]"
        "failed_thread m = Some (th32ThreadID e)"
        "trace w' = trace w @ probe_calls ?n ?t @ probe_trace ?n done'
                    @ failed_calls ?n m @ [CloseHandle_call snap]"
        by auto
      with True pos have "owned_by pid (x # es) = (x # done') @ e # rest
        \<and> (\<forall>d \<in> set (x # done'). susp w (th32ThreadID d) \<noteq> 0)
        \<and> stdout w' = stdout w @ [m]
        \<and> failed_thread m = Some (th32ThreadID e)
        \<and> trace w' = trace w @ probe_trace ?n (x # done')
                    @ failed_calls ?n m @ [CloseHandle_call snap]"
        by simp
      then show ?thesis by blast
    next
      case False
      let ?P = "\<lambda>m. owned_by pid (x # es) = [] @ x # owned_by pid es
        \<and> (\<forall>d \<in> set ([] :: THREADENTRY32 list). susp w (th32ThreadID d) \<noteq> 0)
        \<and> stdout w' = stdout w @ [m]
        \<and> failed_thread m = Some (th32ThreadID x)
        \<and> trace w' = trace w @ probe_trace ?n []
                    @ failed_calls ?n m @ [CloseHandle_call snap]"
      from False Cons.prems True have "\<exists>m. ?P m"
        by (auto simp: status_loop_owned Let_def probe_calls_def
            split: option.splits if_splits)
      then show ?thesis by blast
    qed
  qed
qed

lemma count_probed_le:
  "count_list (map th32ThreadID (probed c es)) t \<le> count_list (map th32ThreadID es) t"
  by (induction es) auto

lemma status_exit_codes: "fst (status P w) = 0 \<or> fst (status P w) = 1"
proof (cases "snapshot_error (faults w)")
  case (Some err)
  then show ?thesis by (simp add: status_snapshot_failed)
next
  case None
  then show ?thesis
    by (simp add: status_snapshot_ok split: sum.splits prod.splits)
qed

lemma status_call_counts:
  "\<exists>new m. trace (snd (status P w)) = trace w @ new
     \<and> stdout (snd (status P w)) = stdout w @ [m]
     \<and> (\<forall>t. count_list new (SuspendThread_call (Some t)) \<le> count_list (tids_of P (threads w)) t)
     \<and> (\<forall>t. count_list new (SuspendThread_call (Some t))
            = count_list new (ResumeThread_call (Some t))
              + (if \<exists>x. m = SuspendThread_failed t x then 1 else 0))"
proof (cases "snapshot_error (faults w)")
  case (Some err)
  let ?new = "[Snapshot_call]"
  let ?m = "Failed_CreateToolhelp32Snapshot (error_text w err)"
  from Some have "trace (snd (status P w)) = trace w @ ?new
     \<and> stdout (snd (status P w)) = stdout w @ [?m]
     \<and> (\<forall>t. count_list ?new (SuspendThread_call (Some t)) \<le> count_list (tids_of P (threads w)) t)
     \<and> (\<forall>t. count_list ?new (SuspendThread_call (Some t))
            = count_list ?new (ResumeThread_call (Some t))
              + (if \<exists>x. ?m = SuspendThread_failed t x then 1 else 0))"
    by (simp add: status_snapshot_failed)
  then show ?thesis by blast
next
  case None
  let ?ns = "fresh_handle (handles w)"
  let ?nt = "fresh_handle ((?ns, Snapshot_object (threads w)) # handles w)"
  show ?thesis
  proof (cases "status_loop P (Handle ?ns) (threads w) False True (snapshot_world w)")
    case (Inl w2)
    from status_loop_Inl_calls [OF Inl] obtain "done" e rest m where
      own: "owned_by P (threads w) = done @ e # rest"
      and out: "stdout w2 = stdout w @ [m]"
      and th: "failed_thread m = Some (th32ThreadID e)"
      and tr: "trace w2 = trace w @ Snapshot_call # probe_trace ?nt done
                    @ failed_calls ?nt m @ [CloseHandle_call (Handle ?ns)]"
      by auto
    let ?new = "Snapshot_call # probe_trace ?nt done @ failed_calls ?nt m
                  @ [CloseHandle_call (Handle ?ns)]"
    have w2: "snd (status P w) = w2" using None Inl by (simp add: status_snapshot_ok)
    have bound: "\<forall>t. count_list ?new (SuspendThread_call (Some t))
        \<le> count_list (tids_of P (threads w)) t"
    proof
      fix t
      from th have "count_list (failed_calls ?nt m) (SuspendThread_call (Some t))
          \<le> (if th32ThreadID e = t then 1 else 0)"
        by (cases m) (auto simp: probe_calls_def)
      then show "count_list ?new (SuspendThread_call (Some t))
          \<le> count_list (tids_of P (threads w)) t"
        by (auto simp: tids_of_def own count_probe_trace split: if_splits)
    qed
    have pair: "\<forall>t. count_list ?new (SuspendThread_call (Some t))
            = count_list ?new (ResumeThread_call (Some t))
              + (if \<exists>x. m = SuspendThread_failed t x then 1 else 0)"
      by (auto simp: count_probe_trace count_failed_calls)
    from tr out bound pair w2 have "trace (snd (status P w)) = trace w @ ?new
      \<and> stdout (snd (status P w)) = stdout w @ [m]
      \<and> (\<forall>t. count_list ?new (SuspendThread_call (Some t)) \<le> count_list (tids_of P (threads w)) t)
      \<and> (\<forall>t. count_list ?new (SuspendThread_call (Some t))
            = count_list ?new (ResumeThread_call (Some t))
              + (if \<exists>x. m = SuspendThread_failed t x then 1 else 0))"
      by simp
    then show ?thesis by blast
  next
    case (Inr r)
    let ?new = "Snapshot_call # probe_trace ?nt (probed (susp w) (owned_by P (threads w)))
                  @ [CloseHandle_call (Handle ?ns)]"
    let ?m = "if owned_by P (threads w) = [] then No_threads_found P
            else Status_line (if \<forall>e \<in> set (owned_by P (threads w)). susp w (th32ThreadID e) \<noteq> 0
                              then ''T'' else ''R'')"
    from status_completed [OF None Inr] have "trace (snd (status P w)) = trace w @ ?new
      \<and> stdout (snd (status P w)) = stdout w @ [?m]
      \<and> (\<forall>t. count_list ?new (SuspendThread_call (Some t)) \<le> count_list (tids_of P (threads w)) t)
      \<and> (\<forall>t. count_list ?new (SuspendThread_call (Some t))
            = count_list ?new (ResumeThread_call (Some t))
              + (if \<exists>x. ?m = SuspendThread_failed t x then 1 else 0))"
      by (simp add: count_probe_trace count_probed_le tids_of_def)
    then show ?thesis by blast
  qed
qed

lemma apply_proc_trace:
  assumes "fst (apply_proc pid suspend w) = 0"
  shows "trace (snd (apply_proc pid suspend w)) =
     trace w @ [GetProcAddress_call (primitive_name suspend), OpenProcess_call pid,
                Primitive_call (primitive_of suspend) (Handle (fresh_handle (handles w))),
                CloseHandle_call (Handle (fresh_handle (handles w)))]"
  using assms
  by (auto simp: apply_proc_def GetProcAddress_def OpenProcess_def call_primitive_def Let_def
      log_call_def resolve_def ntdll_export_def primitive_of_def primitive_name_def print_def
      STATUS_INVALID_HANDLE_def win32_strerror_eq
      split: option.splits hobj.splits if_splits)

lemma apply_proc_unresolved:
  "missing_export (faults w) (primitive_name suspend) = Some err \<Longrightarrow>
   apply_proc pid suspend w =
     (1, w\<lparr>trace := trace w @ [GetProcAddress_call (primitive_name suspend)],
           last_error := err, msgbuf := error_text w err,
           stdout := stdout w
             @ [Failed_GetProcAddress (primitive_name suspend) (error_text w err)]\<rparr>)"
  by (simp add: apply_proc_def primitive_name_def GetProcAddress_def Let_def log_call_def
      print_def GetLastError_def win32_strerror_eq)

section \<open>Release of resources\<close>

text \<open>
  Claim C9. Every handle an operation acquires (the process handle in \<open>apply\<close>, the
  snapshot handle and each thread handle in \<open>status\<close>) is released on every path out of
  the operation: whatever the outcome, the table of open handles after the operation is
  the table before it.
\<close>

theorem handles_released:
  "handles (snd (apply_proc pid suspend w)) = handles w
   \<and> handles (snd (status pid w)) = handles w"
  by (simp add: apply_proc_handles status_handles)

section \<open>What status reports\<close>

text \<open>
  Claim C1. Let the snapshot contain at least one thread owned by the target \<open>P\<close>.
  If no call on those threads is refused and none of them is at the maximal suspend
  count, \<open>status\<close> ends with exit code 0; and whenever
  it ends with exit code 0 it prints \<open>T\<close> exactly when every thread it probed had a
  suspend count of at least 1 before the probe, and \<open>R\<close> exactly when some probed
  thread had count 0. The system calls it makes are the snapshot, one complete probe for
  each probed entry and the closing of the snapshot; the probed entries are the entries
  of \<open>P\<close> up to and including the first running one, so the entries after it are
  neither opened nor probed.
\<close>

theorem status_report:
  "(probes_allowed P w \<and> (\<forall>t \<in> set (tids_of P (threads w)). susp w t < MAXIMUM_SUSPEND_COUNT)
      \<and> owned_by P (threads w) \<noteq> [] \<longrightarrow> fst (status P w) = 0)
   \<and> (fst (status P w) = 0 \<longrightarrow>
        owned_by P (threads w) \<noteq> []
      \<and> ((stdout (snd (status P w)) = stdout w @ [Status_line ''T''])
           = (\<forall>e \<in> set (probed_entries P w). 1 \<le> susp w (th32ThreadID e)))
      \<and> ((stdout (snd (status P w)) = stdout w @ [Status_line ''R''])
           = (\<exists>e \<in> set (probed_entries P w). susp w (th32ThreadID e) = 0))
      \<and> trace (snd (status P w)) =
           trace w @ [Snapshot_call] @ probe_trace (thread_handle w) (probed_entries P w)
             @ [CloseHandle_call (Handle (snapshot_handle w))]
      \<and> ((\<exists>e \<in> set (probed_entries P w). susp w (th32ThreadID e) = 0) \<longrightarrow>
            (\<exists>before e rest.
                owned_by P (threads w) = before @ e # rest
              \<and> probed_entries P w = before @ [e]
              \<and> susp w (th32ThreadID e) = 0
              \<and> (\<forall>b \<in> set before. susp w (th32ThreadID b) \<noteq> 0))))"
proof (intro conjI impI)
  assume "probes_allowed P w \<and> (\<forall>t \<in> set (tids_of P (threads w)). susp w t < MAXIMUM_SUSPEND_COUNT)
      \<and> owned_by P (threads w) \<noteq> []"
  then show "fst (status P w) = 0" by (simp add: status_exit_code)
next
  assume z: "fst (status P w) = 0"
  note ex = status_exit_0 [OF z]
  have all: "(\<forall>e \<in> set (probed_entries P w). susp w (th32ThreadID e) \<noteq> 0)
      = (\<forall>e \<in> set (owned_by P (threads w)). susp w (th32ThreadID e) \<noteq> 0)"
    unfolding probed_entries_def by (rule probed_all_suspended)
  from ex show "owned_by P (threads w) \<noteq> []" by simp
  from ex all show "(stdout (snd (status P w)) = stdout w @ [Status_line ''T''])
           = (\<forall>e \<in> set (probed_entries P w). 1 \<le> susp w (th32ThreadID e))"
    by (simp add: Suc_le_eq)
  from all have some: "(\<exists>e \<in> set (probed_entries P w). susp w (th32ThreadID e) = 0)
      = (\<exists>e \<in> set (owned_by P (threads w)). susp w (th32ThreadID e) = 0)"
    by auto
  from ex show "(stdout (snd (status P w)) = stdout w @ [Status_line ''R''])
           = (\<exists>e \<in> set (probed_entries P w). susp w (th32ThreadID e) = 0)"
    unfolding some by auto
  from ex show "trace (snd (status P w)) =
           trace w @ [Snapshot_call] @ probe_trace (thread_handle w) (probed_entries P w)
             @ [CloseHandle_call (Handle (snapshot_handle w))]"
    by simp
next
  assume "fst (status P w) = 0"
    and r: "\<exists>e \<in> set (probed_entries P w). susp w (th32ThreadID e) = 0"
  from r have "\<exists>e \<in> set (owned_by P (threads w)). susp w (th32ThreadID e) = 0"
    using set_probed [of "susp w" "owned_by P (threads w)"] by (auto simp: probed_entries_def)
  from probed_split [OF this] show "\<exists>before e rest.
                owned_by P (threads w) = before @ e # rest
              \<and> probed_entries P w = before @ [e]
              \<and> susp w (th32ThreadID e) = 0
              \<and> (\<forall>b \<in> set before. susp w (th32ThreadID b) \<noteq> 0)"
    by (simp add: probed_entries_def)
qed

theorem status_report_witness:
  "fst (status 8 running_machine) = 0
   \<and> stdout (snd (status 8 running_machine)) = [Status_line ''R'']
   \<and> probed_entries 8 running_machine = [\<lparr>th32ThreadID = 11, th32OwnerProcessID = 8\<rparr>]
   \<and> trace (snd (status 8 running_machine)) =
       [Snapshot_call, OpenThread_call 11, SuspendThread_call (Some 11),
        ResumeThread_call (Some 11), CloseHandle_call (Handle 2), CloseHandle_call (Handle 1)]
   \<and> fst (status 8 suspended_machine) = 0
   \<and> stdout (snd (status 8 suspended_machine)) = [Status_line ''T'']
   \<and> map th32ThreadID (probed_entries 8 suspended_machine) = [11, 12, 13]"
proof -
  have a: "probes_allowed 8 running_machine
      \<and> (\<forall>t \<in> set (tids_of 8 (threads running_machine)). susp running_machine t < MAXIMUM_SUSPEND_COUNT)
      \<and> owned_by 8 (threads running_machine) \<noteq> []"
    by (simp add: probes_allowed_def machine_defs suspended_machine_def os_defs)
  have b: "probes_allowed 8 suspended_machine
      \<and> (\<forall>t \<in> set (tids_of 8 (threads suspended_machine)). susp suspended_machine t < MAXIMUM_SUSPEND_COUNT)
      \<and> owned_by 8 (threads suspended_machine) \<noteq> []"
    by (simp add: probes_allowed_def machine_defs suspended_machine_def os_defs)
  have pr: "probed_entries 8 running_machine = [\<lparr>th32ThreadID = 11, th32OwnerProcessID = 8\<rparr>]"
    by (simp add: probed_entries_def probed_def machine_defs suspended_machine_def os_defs)
  have ps: "map th32ThreadID (probed_entries 8 suspended_machine) = [11, 12, 13]"
    by (simp add: probed_entries_def probed_def machine_defs suspended_machine_def os_defs)
  have hr: "thread_handle running_machine = 2" "snapshot_handle running_machine = 1"
    "stdout running_machine = []" "trace running_machine = []" "susp running_machine 11 = 0"
    by (simp_all add: thread_handle_def snapshot_handle_def machine_defs suspended_machine_def os_defs)
  have hs: "stdout suspended_machine = []" "susp suspended_machine 11 = 1"
    "susp suspended_machine 12 = 1" "susp suspended_machine 13 = 1"
    by (simp_all add: machine_defs suspended_machine_def)
  note r = status_report [of 8 running_machine]
  note s = status_report [of 8 suspended_machine]
  from r a have r0: "fst (status 8 running_machine) = 0" by blast
  from s b have s0: "fst (status 8 suspended_machine) = 0" by blast
  from r r0 pr hr have "stdout (snd (status 8 running_machine)) = [Status_line ''R'']"
    by simp
  moreover from r r0 pr hr have "trace (snd (status 8 running_machine)) =
       [Snapshot_call, OpenThread_call 11, SuspendThread_call (Some 11),
        ResumeThread_call (Some 11), CloseHandle_call (Handle 2), CloseHandle_call (Handle 1)]"
    by (simp add: probe_calls_def)
  moreover have "\<forall>e \<in> set (probed_entries 8 suspended_machine). 1 \<le> susp suspended_machine (th32ThreadID e)"
  proof
    fix e assume "e \<in> set (probed_entries 8 suspended_machine)"
    then have "th32ThreadID e \<in> set (map th32ThreadID (probed_entries 8 suspended_machine))"
      by simp
    with ps hs show "1 \<le> susp suspended_machine (th32ThreadID e)" by auto
  qed
  with s s0 hs have "stdout (snd (status 8 suspended_machine)) = [Status_line ''T'']"
    by simp
  ultimately show ?thesis using r0 s0 pr ps by simp
qed

text \<open>
  Claim C5. When the snapshot succeeds and contains no thread whose owner is \<open>P\<close>,
  \<open>status\<close> closes the snapshot, prints the line \<open>No threads found for pid P\<close> and
  nothing else, and ends with exit code 1: neither \<open>T\<close> nor \<open>R\<close> is printed.
\<close>

theorem status_no_threads:
  assumes "snapshot_error (faults w) = None"
    and "\<forall>e \<in> set (threads w). th32OwnerProcessID e \<noteq> P"
  shows "status P w =
     (1, w\<lparr>trace := trace w @ [Snapshot_call, CloseHandle_call (Handle (snapshot_handle w))],
           stdout := stdout w @ [No_threads_found P]\<rparr>)"
  using assms by (rule status_without_threads)

theorem status_no_threads_witness:
  "snapshot_error (faults running_machine) = None
   \<and> map th32OwnerProcessID (threads running_machine) = [4, 8, 8, 8]
   \<and> fst (status 9 running_machine) = 1
   \<and> stdout (snd (status 9 running_machine)) = [No_threads_found 9]"
proof -
  have a: "snapshot_error (faults running_machine) = None"
    by (simp add: machine_defs)
  have b: "\<forall>e \<in> set (threads running_machine). th32OwnerProcessID e \<noteq> 9"
    by (simp add: machine_defs)
  have c: "stdout running_machine = []"
    "map th32OwnerProcessID (threads running_machine) = [4, 8, 8, 8]"
    by (simp_all add: machine_defs)
  from status_no_threads [OF a b] a c show ?thesis by simp
qed

section \<open>What status leaves behind\<close>

text \<open>
  Claim C10. \<open>status\<close> never calls \<open>OpenProcess\<close> nor a whole-process primitive, and
  every \<open>OpenThread\<close>, \<open>SuspendThread\<close> and \<open>ResumeThread\<close> it issues is directed at
  the thread of a snapshot entry owned by the target. The suspend count of every other
  thread is what it was. Thread identifiers being unique in the snapshot, an entry
  that the target does not own is never opened, suspended or resumed.
\<close>

theorem status_touches_only_target:
  "\<exists>new. trace (snd (status P w)) = trace w @ new
      \<and> (\<forall>p. OpenProcess_call p \<notin> set new)
      \<and> (\<forall>f h. Primitive_call f h \<notin> set new)
      \<and> (\<forall>t. OpenThread_call t \<in> set new \<longrightarrow> t \<in> set (tids_of P (threads w)))
      \<and> (\<forall>x. SuspendThread_call x \<in> set new \<longrightarrow> x \<in> Some ` set (tids_of P (threads w)))
      \<and> (\<forall>x. ResumeThread_call x \<in> set new \<longrightarrow> x \<in> Some ` set (tids_of P (threads w)))
      \<and> (\<forall>t. t \<notin> set (tids_of P (threads w)) \<longrightarrow> susp (snd (status P w)) t = susp w t)
      \<and> (distinct (map th32ThreadID (threads w)) \<longrightarrow>
           (\<forall>e \<in> set (threads w). th32OwnerProcessID e \<noteq> P \<longrightarrow>
               OpenThread_call (th32ThreadID e) \<notin> set new
             \<and> SuspendThread_call (Some (th32ThreadID e)) \<notin> set new
             \<and> ResumeThread_call (Some (th32ThreadID e)) \<notin> set new
             \<and> susp (snd (status P w)) (th32ThreadID e) = susp w (th32ThreadID e)))"
proof -
  let ?ts = "tids_of P (threads w)"
  from status_calls [of P w] obtain new where
    tr: "trace (snd (status P w)) = trace w @ new"
    and ok: "\<forall>c \<in> set new. status_call_ok ?ts c"
    by blast
  have 1: "\<forall>p. OpenProcess_call p \<notin> set new"
    using ok by fastforce
  have 2: "\<forall>f h. Primitive_call f h \<notin> set new"
    using ok by fastforce
  have 3: "\<forall>t. OpenThread_call t \<in> set new \<longrightarrow> t \<in> set ?ts"
    using ok by fastforce
  have 4: "\<forall>x. SuspendThread_call x \<in> set new \<longrightarrow> x \<in> Some ` set ?ts"
    using ok by fastforce
  have 5: "\<forall>x. ResumeThread_call x \<in> set new \<longrightarrow> x \<in> Some ` set ?ts"
    using ok by fastforce
  have 6: "\<forall>t. t \<notin> set ?ts \<longrightarrow> susp (snd (status P w)) t = susp w t"
  proof (intro allI impI)
    fix t assume t: "t \<notin> set ?ts"
    from status_message [of P w] obtain m where
      m: "case m of
          ResumeThread_failed t x \<Rightarrow>
            fst (status P w) = 1 \<and> t \<in> set ?ts
            \<and> susp (snd (status P w)) = (susp w)(t := Suc (susp w t))
        | _ \<Rightarrow> susp (snd (status P w)) = susp w"
      by blast
    with t show "susp (snd (status P w)) t = susp w t"
      by (cases m) auto
  qed
  have 7: "distinct (map th32ThreadID (threads w)) \<longrightarrow>
           (\<forall>e \<in> set (threads w). th32OwnerProcessID e \<noteq> P \<longrightarrow>
               OpenThread_call (th32ThreadID e) \<notin> set new
             \<and> SuspendThread_call (Some (th32ThreadID e)) \<notin> set new
             \<and> ResumeThread_call (Some (th32ThreadID e)) \<notin> set new
             \<and> susp (snd (status P w)) (th32ThreadID e) = susp w (th32ThreadID e))"
  proof (intro impI ballI)
    fix e
    assume "distinct (map th32ThreadID (threads w))" "e \<in> set (threads w)"
      "th32OwnerProcessID e \<noteq> P"
    then have "th32ThreadID e \<notin> set ?ts" by (rule foreign_tid)
    with 3 4 5 6 show "OpenThread_call (th32ThreadID e) \<notin> set new
             \<and> SuspendThread_call (Some (th32ThreadID e)) \<notin> set new
             \<and> ResumeThread_call (Some (th32ThreadID e)) \<notin> set new
             \<and> susp (snd (status P w)) (th32ThreadID e) = susp w (th32ThreadID e)"
      by auto
  qed
  from tr 1 2 3 4 5 6 7 show ?thesis by blast
qed

theorem status_touches_only_target_witness:
  "distinct (map th32ThreadID (threads running_machine))
   \<and> tids_of 8 (threads running_machine) = [11, 12, 13]
   \<and> OpenProcess_call 8 \<notin> set (trace (snd (status 8 running_machine)))
   \<and> OpenThread_call 10 \<notin> set (trace (snd (status 8 running_machine)))
   \<and> SuspendThread_call (Some 10) \<notin> set (trace (snd (status 8 running_machine)))
   \<and> ResumeThread_call (Some 10) \<notin> set (trace (snd (status 8 running_machine)))
   \<and> susp (snd (status 8 running_machine)) 10 = susp running_machine 10"
proof -
  let ?e = "\<lparr>th32ThreadID = 10, th32OwnerProcessID = 4\<rparr> :: THREADENTRY32"
  have d: "distinct (map th32ThreadID (threads running_machine))"
    by (simp add: machine_defs)
  have ts: "tids_of 8 (threads running_machine) = [11, 12, 13]"
    by (simp add: machine_defs os_defs)
  have e: "?e \<in> set (threads running_machine)" "th32OwnerProcessID ?e \<noteq> 8"
    "th32ThreadID ?e = 10"
    by (simp_all add: machine_defs)
  have t0: "trace running_machine = []" by (simp add: machine_defs)
  from status_touches_only_target [of 8 running_machine] obtain new where
    new: "trace (snd (status 8 running_machine)) = trace running_machine @ new"
      "\<forall>p. OpenProcess_call p \<notin> set new"
      "distinct (map th32ThreadID (threads running_machine)) \<longrightarrow>
           (\<forall>e \<in> set (threads running_machine). th32OwnerProcessID e \<noteq> 8 \<longrightarrow>
               OpenThread_call (th32ThreadID e) \<notin> set new
             \<and> SuspendThread_call (Some (th32ThreadID e)) \<notin> set new
             \<and> ResumeThread_call (Some (th32ThreadID e)) \<notin> set new
             \<and> susp (snd (status 8 running_machine)) (th32ThreadID e)
                 = susp running_machine (th32ThreadID e))"
    by blast
  from new(3) d e(1,2) have "OpenThread_call (th32ThreadID ?e) \<notin> set new
             \<and> SuspendThread_call (Some (th32ThreadID ?e)) \<notin> set new
             \<and> ResumeThread_call (Some (th32ThreadID ?e)) \<notin> set new
             \<and> susp (snd (status 8 running_machine)) (th32ThreadID ?e)
                 = susp running_machine (th32ThreadID ?e)"
    by blast
  with new(1,2) t0 d ts show ?thesis by simp
qed

text \<open>
  Claim C2 as stated does not hold: on the machine where \<open>ResumeThread\<close> is refused for
  thread 11, \<open>status\<close> issues one suspend and one resume on that thread, returns 1, and
  leaves its count at 1 where it was 0. On the machine where \<open>SuspendThread\<close> is refused,
  the thread receives a suspend call and no resume call.
\<close>

theorem status_not_net_zero_counterexample:
  "fst (status 8 resume_refused_machine) = 1
   \<and> stdout (snd (status 8 resume_refused_machine)) = [ResumeThread_failed 11 ''Access is denied.'']
   \<and> trace (snd (status 8 resume_refused_machine)) =
       [Snapshot_call, OpenThread_call 11, SuspendThread_call (Some 11),
        ResumeThread_call (Some 11), CloseHandle_call (Handle 2), CloseHandle_call (Handle 1)]
   \<and> susp resume_refused_machine 11 = 0
   \<and> susp (snd (status 8 resume_refused_machine)) 11 = 1
   \<and> fst (status 8 suspend_refused_machine) = 1
   \<and> trace (snd (status 8 suspend_refused_machine)) =
       [Snapshot_call, OpenThread_call 11, SuspendThread_call (Some 11),
        CloseHandle_call (Handle 2), CloseHandle_call (Handle 1)]"
  by (simp add: status_def status_loop.simps machine_defs resume_refused_machine_def
      suspend_refused_machine_def os_defs)

text \<open>
  Claim C2, amended. On every path out of \<open>status\<close> other than the one taken when
  \<open>ResumeThread\<close> fails, every thread's suspend count is what it was before the call;
  when \<open>ResumeThread\<close> fails for a thread, the exit code is 1 and that thread alone
  keeps one suspend more. On every path, a thread receives at most one \<open>SuspendThread\<close>
  call for each snapshot entry the target has of it (at most one when thread
  identifiers are unique, exactly one for each probed entry when the exit code is 0),
  and as many \<open>ResumeThread\<close> calls as \<open>SuspendThread\<close> calls; the one exception is the
  path taken when \<open>SuspendThread\<close> fails for a thread, where the exit code is 1 and
  that thread has received one \<open>SuspendThread\<close> call more than \<open>ResumeThread\<close>
  calls.
\<close>

theorem status_net_zero:
  "((\<forall>t x. stdout (snd (status P w)) \<noteq> stdout w @ [ResumeThread_failed t x])
       \<longrightarrow> susp (snd (status P w)) = susp w)
   \<and> (\<forall>t x. stdout (snd (status P w)) = stdout w @ [ResumeThread_failed t x]
       \<longrightarrow> fst (status P w) = 1 \<and> susp (snd (status P w)) = (susp w)(t := Suc (susp w t)))
   \<and> (\<exists>new. trace (snd (status P w)) = trace w @ new
        \<and> (\<forall>t. count_list new (SuspendThread_call (Some t))
               \<le> count_list (tids_of P (threads w)) t)
        \<and> (distinct (tids_of P (threads w))
              \<longrightarrow> (\<forall>t. count_list new (SuspendThread_call (Some t)) \<le> 1))
        \<and> (\<forall>t. (\<forall>x. stdout (snd (status P w)) \<noteq> stdout w @ [SuspendThread_failed t x])
               \<longrightarrow> count_list new (ResumeThread_call (Some t))
                     = count_list new (SuspendThread_call (Some t)))
        \<and> (\<forall>t x. stdout (snd (status P w)) = stdout w @ [SuspendThread_failed t x]
               \<longrightarrow> fst (status P w) = 1
                 \<and> count_list new (SuspendThread_call (Some t))
                     = Suc (count_list new (ResumeThread_call (Some t))))
        \<and> (fst (status P w) = 0
              \<longrightarrow> (\<forall>t. count_list new (SuspendThread_call (Some t))
                       = count_list (map th32ThreadID (probed_entries P w)) t)))"
proof -
  let ?w' = "snd (status P w)"
  from status_call_counts [of P w] obtain new m where
    tr: "trace ?w' = trace w @ new"
    and out: "stdout ?w' = stdout w @ [m]"
    and bound: "\<forall>t. count_list new (SuspendThread_call (Some t))
        \<le> count_list (tids_of P (threads w)) t"
    and pair: "\<forall>t. count_list new (SuspendThread_call (Some t))
            = count_list new (ResumeThread_call (Some t))
              + (if \<exists>x. m = SuspendThread_failed t x then 1 else 0)"
    by blast
  from status_message [of P w] out have m: "case m of
          ResumeThread_failed t x \<Rightarrow>
            fst (status P w) = 1 \<and> t \<in> set (tids_of P (threads w))
            \<and> susp ?w' = (susp w)(t := Suc (susp w t))
        | _ \<Rightarrow> susp ?w' = susp w"
    by auto
  have a: "(\<forall>t x. stdout ?w' \<noteq> stdout w @ [ResumeThread_failed t x]) \<longrightarrow> susp ?w' = susp w"
    using out m by (cases m) auto
  have b: "\<forall>t x. stdout ?w' = stdout w @ [ResumeThread_failed t x]
       \<longrightarrow> fst (status P w) = 1 \<and> susp ?w' = (susp w)(t := Suc (susp w t))"
    using out m by (cases m) auto
  have one: "distinct (tids_of P (threads w))
      \<longrightarrow> (\<forall>t. count_list new (SuspendThread_call (Some t)) \<le> 1)"
  proof (intro impI allI)
    fix t assume "distinct (tids_of P (threads w))"
    then have "count_list (tids_of P (threads w)) t \<le> 1" by (rule count_list_distinct)
    with bound show "count_list new (SuspendThread_call (Some t)) \<le> 1"
      by (meson order_trans)
  qed
  have c: "\<forall>t. (\<forall>x. stdout ?w' \<noteq> stdout w @ [SuspendThread_failed t x])
               \<longrightarrow> count_list new (ResumeThread_call (Some t))
                     = count_list new (SuspendThread_call (Some t))"
    using out pair by auto
  have z: "fst (status P w) = 0 \<longrightarrow> (\<exists>s. m = Status_line s)"
  proof
    assume "fst (status P w) = 0"
    from status_exit_0 [OF this] out show "\<exists>s. m = Status_line s" by auto
  qed
  have d: "\<forall>t x. stdout ?w' = stdout w @ [SuspendThread_failed t x]
               \<longrightarrow> fst (status P w) = 1
                 \<and> count_list new (SuspendThread_call (Some t))
                     = Suc (count_list new (ResumeThread_call (Some t)))"
  proof (intro allI impI)
    fix t x assume "stdout ?w' = stdout w @ [SuspendThread_failed t x]"
    with out have mm: "m = SuspendThread_failed t x" by simp
    with z have "fst (status P w) \<noteq> 0" by auto
    with status_exit_codes [of P w] have "fst (status P w) = 1" by simp
    moreover from pair mm have "count_list new (SuspendThread_call (Some t))
        = Suc (count_list new (ResumeThread_call (Some t)))"
      by simp
    ultimately show "fst (status P w) = 1
                 \<and> count_list new (SuspendThread_call (Some t))
                     = Suc (count_list new (ResumeThread_call (Some t)))"
      by simp
  qed
  have e: "fst (status P w) = 0
      \<longrightarrow> (\<forall>t. count_list new (SuspendThread_call (Some t))
              = count_list (map th32ThreadID (probed_entries P w)) t)"
  proof
    assume "fst (status P w) = 0"
    from status_exit_0 [OF this] tr
    have "new = Snapshot_call # probe_trace (thread_handle w) (probed_entries P w)
           @ [CloseHandle_call (Handle (snapshot_handle w))]"
      by simp
    then show "\<forall>t. count_list new (SuspendThread_call (Some t))
              = count_list (map th32ThreadID (probed_entries P w)) t"
      by (simp add: count_probe_trace)
  qed
  from tr bound one c d e have "\<exists>new. trace ?w' = trace w @ new
        \<and> (\<forall>t. count_list new (SuspendThread_call (Some t))
               \<le> count_list (tids_of P (threads w)) t)
        \<and> (distinct (tids_of P (threads w))
              \<longrightarrow> (\<forall>t. count_list new (SuspendThread_call (Some t)) \<le> 1))
        \<and> (\<forall>t. (\<forall>x. stdout ?w' \<noteq> stdout w @ [SuspendThread_failed t x])
               \<longrightarrow> count_list new (ResumeThread_call (Some t))
                     = count_list new (SuspendThread_call (Some t)))
        \<and> (\<forall>t x. stdout ?w' = stdout w @ [SuspendThread_failed t x]
               \<longrightarrow> fst (status P w) = 1
                 \<and> count_list new (SuspendThread_call (Some t))
                     = Suc (count_list new (ResumeThread_call (Some t))))
        \<and> (fst (status P w) = 0
              \<longrightarrow> (\<forall>t. count_list new (SuspendThread_call (Some t))
                       = count_list (map th32ThreadID (probed_entries P w)) t))"
    by blast
  with a b show ?thesis by blast
qed

theorem status_net_zero_witness:
  "fst (status 8 suspended_machine) = 0
   \<and> susp (snd (status 8 suspended_machine)) = susp suspended_machine
   \<and> count_list (trace (snd (status 8 suspended_machine))) (SuspendThread_call (Some 12)) = 1
   \<and> count_list (trace (snd (status 8 suspended_machine))) (ResumeThread_call (Some 12)) = 1
   \<and> stdout (snd (status 8 resume_refused_machine))
       = stdout resume_refused_machine @ [ResumeThread_failed 11 ''Access is denied.'']
   \<and> susp (snd (status 8 resume_refused_machine)) 11 = Suc (susp resume_refused_machine 11)
   \<and> stdout (snd (status 8 suspend_refused_machine))
       = stdout suspend_refused_machine @ [SuspendThread_failed 11 ''Access is denied.'']
   \<and> susp (snd (status 8 suspend_refused_machine)) = susp suspend_refused_machine
   \<and> count_list (trace (snd (status 8 suspend_refused_machine))) (SuspendThread_call (Some 11))
       = Suc (count_list (trace (snd (status 8 suspend_refused_machine)))
               (ResumeThread_call (Some 11)))
   \<and> stdout (snd (status 8 open_refused_machine))
       = stdout open_refused_machine @ [Failed_OpenThread 12 ''Access is denied.'']
   \<and> susp (snd (status 8 open_refused_machine)) = susp open_refused_machine
   \<and> count_list (trace (snd (status 8 open_refused_machine))) (SuspendThread_call (Some 11)) = 1
   \<and> count_list (trace (snd (status 8 open_refused_machine))) (ResumeThread_call (Some 11)) = 1"
proof -
  have ev: "fst (status 8 suspended_machine) = 0"
    "stdout (snd (status 8 suspended_machine)) = stdout suspended_machine @ [Status_line ''T'']"
    "stdout (snd (status 8 resume_refused_machine))
       = stdout resume_refused_machine @ [ResumeThread_failed 11 ''Access is denied.'']"
    "stdout (snd (status 8 suspend_refused_machine))
       = stdout suspend_refused_machine @ [SuspendThread_failed 11 ''Access is denied.'']"
    "stdout (snd (status 8 open_refused_machine))
       = stdout open_refused_machine @ [Failed_OpenThread 12 ''Access is denied.'']"
    "count_list (trace (snd (status 8 open_refused_machine))) (SuspendThread_call (Some 11)) = 1"
    by (simp_all add: status_def status_loop.simps machine_defs suspended_machine_def
        resume_refused_machine_def suspend_refused_machine_def open_refused_machine_def os_defs)
  have pe: "map th32ThreadID (probed_entries 8 suspended_machine) = [11, 12, 13]"
    "trace suspended_machine = []" "trace suspend_refused_machine = []"
    "trace open_refused_machine = []"
    by (simp_all add: probed_entries_def probed_def machine_defs suspended_machine_def
        suspend_refused_machine_def open_refused_machine_def os_defs)
  note s = status_net_zero [of 8 suspended_machine]
  note r = status_net_zero [of 8 resume_refused_machine]
  note u = status_net_zero [of 8 suspend_refused_machine]
  note v = status_net_zero [of 8 open_refused_machine]
  from s ev(2) have 1: "susp (snd (status 8 suspended_machine)) = susp suspended_machine"
    by simp
  from s pe obtain new where
    "trace (snd (status 8 suspended_machine)) = new"
    "\<forall>t. (\<forall>x. stdout (snd (status 8 suspended_machine))
               \<noteq> stdout suspended_machine @ [SuspendThread_failed t x])
        \<longrightarrow> count_list new (ResumeThread_call (Some t))
              = count_list new (SuspendThread_call (Some t))"
    "fst (status 8 suspended_machine) = 0
      \<longrightarrow> (\<forall>t. count_list new (SuspendThread_call (Some t))
              = count_list (map th32ThreadID (probed_entries 8 suspended_machine)) t)"
    by auto
  with ev(1,2) pe(1) have 2:
    "count_list (trace (snd (status 8 suspended_machine))) (SuspendThread_call (Some 12)) = 1"
    "count_list (trace (snd (status 8 suspended_machine))) (ResumeThread_call (Some 12)) = 1"
    by simp_all
  from r ev(3) have 3: "susp (snd (status 8 resume_refused_machine))
      = (susp resume_refused_machine)(11 := Suc (susp resume_refused_machine 11))"
    by blast
  from u ev(4) have 4: "susp (snd (status 8 suspend_refused_machine)) = susp suspend_refused_machine"
    by simp
  from u pe obtain new' where
    "trace (snd (status 8 suspend_refused_machine)) = new'"
    "\<forall>t x. stdout (snd (status 8 suspend_refused_machine))
               = stdout suspend_refused_machine @ [SuspendThread_failed t x]
        \<longrightarrow> fst (status 8 suspend_refused_machine) = 1
          \<and> count_list new' (SuspendThread_call (Some t))
              = Suc (count_list new' (ResumeThread_call (Some t)))"
    by auto
  with ev(4) have 5:
    "count_list (trace (snd (status 8 suspend_refused_machine))) (SuspendThread_call (Some 11))
       = Suc (count_list (trace (snd (status 8 suspend_refused_machine)))
               (ResumeThread_call (Some 11)))"
    by blast
  from v ev(5) have 6: "susp (snd (status 8 open_refused_machine)) = susp open_refused_machine"
    by simp
  from v pe obtain new'' where
    "trace (snd (status 8 open_refused_machine)) = new''"
    "\<forall>t. (\<forall>x. stdout (snd (status 8 open_refused_machine))
               \<noteq> stdout open_refused_machine @ [SuspendThread_failed t x])
        \<longrightarrow> count_list new'' (ResumeThread_call (Some t))
              = count_list new'' (SuspendThread_call (Some t))"
    by auto
  with ev(5,6) have 7:
    "count_list (trace (snd (status 8 open_refused_machine))) (ResumeThread_call (Some 11)) = 1"
    by simp
  from ev 1 2 3 4 5 6 7 show ?thesis by simp
qed

section \<open>The command line\<close>

text \<open>
  Claim C6. When the number of arguments after the program name is not two, or the
  first argument is none of \<open>suspend\<close>, \<open>resume\<close> and \<open>status\<close>, the program prints
  the usage text and ends with status 1, and that is all it does: no system call is
  made and no handle, of a process, a thread or a snapshot, is opened.
\<close>

theorem usage_on_bad_arguments:
  "length argv \<noteq> 3 \<or> argv ! 1 \<notin> {''suspend'', ''resume'', ''status''} \<Longrightarrow>
   main argv w = (1, w\<lparr>stdout := stdout w @ [Usage_text]\<rparr>)"
  by (auto simp: main_def usage_def print_def)

theorem usage_on_bad_arguments_witness:
  "main [''susres'', ''pause'', ''8''] running_machine
     = (1, running_machine\<lparr>stdout := stdout running_machine @ [Usage_text]\<rparr>)
   \<and> main [''susres'', ''status''] running_machine
     = (1, running_machine\<lparr>stdout := stdout running_machine @ [Usage_text]\<rparr>)
   \<and> main [''susres'', ''status'', ''8'', ''9''] running_machine
     = (1, running_machine\<lparr>stdout := stdout running_machine @ [Usage_text]\<rparr>)
   \<and> trace (snd (main [''susres'', ''pause'', ''8''] running_machine)) = []
   \<and> handles (snd (main [''susres'', ''pause'', ''8''] running_machine)) = []"
proof -
  have a: "length [''susres'', ''pause'', ''8''] \<noteq> 3
      \<or> [''susres'', ''pause'', ''8''] ! 1 \<notin> {''suspend'', ''resume'', ''status''}"
    by simp
  have b: "length [''susres'', ''status''] \<noteq> 3
      \<or> [''susres'', ''status''] ! 1 \<notin> {''suspend'', ''resume'', ''status''}"
    by simp
  have c: "length [''susres'', ''status'', ''8'', ''9''] \<noteq> 3
      \<or> [''susres'', ''status'', ''8'', ''9''] ! 1 \<notin> {''suspend'', ''resume'', ''status''}"
    by simp
  have t: "trace running_machine = []" "handles running_machine = []"
    by (simp_all add: machine_defs)
  from usage_on_bad_arguments [OF a, of running_machine]
    usage_on_bad_arguments [OF b, of running_machine]
    usage_on_bad_arguments [OF c, of running_machine] t
  show ?thesis by simp
qed

text \<open>
  Claim C4 as stated does not hold: for the argument \<open>4294967297\<close> the 64-bit parse is
  4294967297, but the process identifier that \<open>status\<close> receives is 1.
\<close>

theorem pid_not_the_parse_counterexample:
  "atoi64 ''4294967297'' = 4294967297
   \<and> uint (main_pid [''susres'', ''status'', ''4294967297'']) = 1
   \<and> uint (main_pid [''susres'', ''status'', ''4294967297'']) \<noteq> atoi64 ''4294967297''
   \<and> main [''susres'', ''status'', ''4294967297''] running_machine = status 1 running_machine"
proof -
  have w: "(4294967297 :: dword) = 1"
    by (simp add: word_uint_eq_iff)
  show ?thesis
    by (simp add: main_def main_pid_def atoi64_def isspace_def isdigit_def w)
qed

text \<open>
  Claim C4, amended. The process identifier passed to the selected operation is the
  64-bit parse of the argument converted to the 32-bit \<open>DWORD\<close>, that is, the parse
  modulo \<open>2^32\<close>; it equals the parse whenever the parse lies between 0 and \<open>2^32 - 1\<close>.
\<close>

theorem pid_is_truncated_parse:
  "uint (main_pid argv) = atoi64 (argv ! 2) mod 2 ^ 32
   \<and> (0 \<le> atoi64 (argv ! 2) \<and> atoi64 (argv ! 2) < 2 ^ 32
        \<longrightarrow> uint (main_pid argv) = atoi64 (argv ! 2))
   \<and> (length argv = 3 \<longrightarrow>
        main argv w =
          (if argv ! 1 = ''suspend'' then apply_proc (main_pid argv) True w
           else if argv ! 1 = ''resume'' then apply_proc (main_pid argv) False w
           else if argv ! 1 = ''status'' then status (main_pid argv) w
           else usage w))"
  by (simp add: main_pid_def main_def uint_word_of_int)

theorem pid_is_truncated_parse_witness:
  "atoi64 ''8'' = 8 \<and> uint (main_pid [''susres'', ''status'', ''8'']) = 8
   \<and> main [''susres'', ''status'', ''8''] running_machine = status 8 running_machine
   \<and> atoi64 ''-1'' = - 1 \<and> uint (main_pid [''susres'', ''resume'', ''-1'']) = 4294967295"
proof -
  have a: "atoi64 ''8'' = 8" "atoi64 ''-1'' = - 1"
    by (simp_all add: atoi64_def isspace_def isdigit_def)
  have n: "[''susres'', ''status'', ''8''] ! 2 = ''8''" "[''susres'', ''resume'', ''-1''] ! 2 = ''-1''"
    "length [''susres'', ''status'', ''8''] = 3" "[''susres'', ''status'', ''8''] ! 1 = ''status''"
    by simp_all
  note p = pid_is_truncated_parse [of "[''susres'', ''status'', ''8'']" running_machine]
  note q = pid_is_truncated_parse [of "[''susres'', ''resume'', ''-1'']" running_machine]
  from p a n have 1: "uint (main_pid [''susres'', ''status'', ''8'']) = 8" by simp
  from p n have 2: "main [''susres'', ''status'', ''8''] running_machine
      = status (main_pid [''susres'', ''status'', ''8'']) running_machine" by simp
  from 1 have "main_pid [''susres'', ''status'', ''8''] = 8"
    by (simp add: word_uint_eq_iff)
  with 2 have 3: "main [''susres'', ''status'', ''8''] running_machine = status 8 running_machine"
    by simp
  from q a n have 4: "uint (main_pid [''susres'', ''resume'', ''-1'']) = 4294967295" by simp
  from a 1 3 4 show ?thesis by simp
qed

section \<open>Suspending, resuming and asking\<close>



text \<open>
  Claim C7. For a running process \<open>P\<close> as above, if \<open>suspend(P)\<close> and then \<open>resume(P)\<close>
  succeed, the suspend has invoked \<open>NtSuspendProcess\<close> and raised every count of \<open>P\<close>
  to 1, and the resume has invoked \<open>NtResumeProcess\<close> and brought all counts back to
  what they were, so that the first thread of \<open>P\<close> has count 0. \<open>status(P)\<close> then
  takes a snapshot, probes that first thread and no other, ends with exit code 0 and
  prints \<open>R\<close>, and leaves every suspend count as it was at the start.
\<close>

theorem suspend_resume_status:
  "(freeze_allowed P w \<longrightarrow>
        fst (apply_proc P True w) = 0
      \<and> fst (apply_proc P False (snd (apply_proc P True w))) = 0)
   \<and> (owned_by P (threads w) \<noteq> []
       \<and> (\<forall>e \<in> set (owned_by P (threads w)). susp w (th32ThreadID e) = 0)
       \<and> probes_allowed P w
       \<and> fst (apply_proc P True w) = 0
       \<and> fst (apply_proc P False (snd (apply_proc P True w))) = 0 \<longrightarrow>
         (\<forall>e \<in> set (owned_by P (threads w)).
             susp (snd (apply_proc P True w)) (th32ThreadID e) = 1)
       \<and> susp (snd (apply_proc P False (snd (apply_proc P True w)))) = susp w
       \<and> fst (status P (snd (apply_proc P False (snd (apply_proc P True w))))) = 0
       \<and> stdout (snd (status P (snd (apply_proc P False (snd (apply_proc P True w))))))
           = stdout w @ [Status_line ''R'']
       \<and> probed_entries P (snd (apply_proc P False (snd (apply_proc P True w))))
           = [hd (owned_by P (threads w))]
       \<and> trace (snd (apply_proc P True w)) =
           trace w @ [GetProcAddress_call ''NtSuspendProcess'', OpenProcess_call P,
                      Primitive_call NtSuspendProcess (Handle (fresh_handle (handles w))),
                      CloseHandle_call (Handle (fresh_handle (handles w)))]
       \<and> trace (snd (apply_proc P False (snd (apply_proc P True w)))) =
           trace (snd (apply_proc P True w))
             @ [GetProcAddress_call ''NtResumeProcess'', OpenProcess_call P,
                Primitive_call NtResumeProcess (Handle (fresh_handle (handles w))),
                CloseHandle_call (Handle (fresh_handle (handles w)))]
       \<and> susp (snd (apply_proc P False (snd (apply_proc P True w))))
            (th32ThreadID (hd (owned_by P (threads w)))) = 0
       \<and> trace (snd (status P (snd (apply_proc P False (snd (apply_proc P True w)))))) =
           trace (snd (apply_proc P False (snd (apply_proc P True w)))) @ [Snapshot_call]
             @ probe_calls
                 (thread_handle (snd (apply_proc P False (snd (apply_proc P True w)))))
                 (th32ThreadID (hd (owned_by P (threads w))))
             @ [CloseHandle_call
                  (Handle (snapshot_handle (snd (apply_proc P False (snd (apply_proc P True w))))))]
       \<and> susp (snd (status P (snd (apply_proc P False (snd (apply_proc P True w))))))
           = susp w)"
proof (intro conjI impI)
  assume f: "freeze_allowed P w"
  then show s: "fst (apply_proc P True w) = 0" by (rule apply_proc_allowed)
  from f have "freeze_allowed P (snd (apply_proc P True w))"
    by (simp add: freeze_allowed_def apply_proc_exit_0 [OF s])
  then show "fst (apply_proc P False (snd (apply_proc P True w))) = 0"
    by (rule apply_proc_allowed)
next
  let ?w1 = "snd (apply_proc P True w)"
  let ?w2 = "snd (apply_proc P False ?w1)"
  assume h: "owned_by P (threads w) \<noteq> []
       \<and> (\<forall>e \<in> set (owned_by P (threads w)). susp w (th32ThreadID e) = 0)
       \<and> probes_allowed P w
       \<and> fst (apply_proc P True w) = 0
       \<and> fst (apply_proc P False (snd (apply_proc P True w))) = 0"
  then have s: "fst (apply_proc P True w) = 0" and r: "fst (apply_proc P False ?w1) = 0"
    and run: "\<forall>e \<in> set (owned_by P (threads w)). susp w (th32ThreadID e) = 0"
    and ne: "owned_by P (threads w) \<noteq> []"
    by simp_all
  note w1 = apply_proc_exit_0 [OF s]
  note w2 = apply_proc_exit_0 [OF r]
  from run s show "\<forall>e \<in> set (owned_by P (threads w)). susp ?w1 (th32ThreadID e) = 1"
    by (rule suspended_counts)
  from run s r show same: "susp ?w2 = susp w" by (rule resumed_counts)
  from h have pa: "probes_allowed P ?w2"
    by (simp add: probes_allowed_def w1 w2)
  from run have lt: "\<forall>t \<in> set (tids_of P (threads ?w2)). susp ?w2 t < MAXIMUM_SUSPEND_COUNT"
    by (auto simp: same w1(3) w2(3) tids_of_def MAXIMUM_SUSPEND_COUNT_def)
  from ne have ne2: "owned_by P (threads ?w2) \<noteq> []" by (simp add: w1 w2)
  from pa lt ne2 show z: "fst (status P ?w2) = 0" by (rule status_exit_code)
  note ex = status_exit_0 [OF z]
  from ne run have some: "\<not> (\<forall>e \<in> set (owned_by P (threads w)). susp w (th32ThreadID e) \<noteq> 0)"
    by (cases "owned_by P (threads w)") auto
  with ex show "stdout (snd (status P ?w2)) = stdout w @ [Status_line ''R'']"
    by (simp add: w1(3,5) w2(3,5) same)
  from ne run have first: "susp w (th32ThreadID (hd (owned_by P (threads w)))) = 0"
    by (cases "owned_by P (threads w)") auto
  with ne show pe: "probed_entries P ?w2 = [hd (owned_by P (threads w))]"
    by (simp add: probed_entries_def same w1(3) w2(3) probed_first)
  from apply_proc_trace [OF s] show "trace ?w1 =
           trace w @ [GetProcAddress_call ''NtSuspendProcess'', OpenProcess_call P,
                      Primitive_call NtSuspendProcess (Handle (fresh_handle (handles w))),
                      CloseHandle_call (Handle (fresh_handle (handles w)))]"
    by (simp add: primitive_name_def primitive_of_def)
  have "handles ?w1 = handles w" by (rule apply_proc_handles)
  with apply_proc_trace [OF r] show "trace ?w2 =
           trace ?w1
             @ [GetProcAddress_call ''NtResumeProcess'', OpenProcess_call P,
                Primitive_call NtResumeProcess (Handle (fresh_handle (handles w))),
                CloseHandle_call (Handle (fresh_handle (handles w)))]"
    by (simp add: primitive_name_def primitive_of_def)
  from first same show "susp ?w2 (th32ThreadID (hd (owned_by P (threads w)))) = 0"
    by simp
  from ex pe show "trace (snd (status P ?w2)) =
           trace ?w2 @ [Snapshot_call]
             @ probe_calls (thread_handle ?w2) (th32ThreadID (hd (owned_by P (threads w))))
             @ [CloseHandle_call (Handle (snapshot_handle ?w2))]"
    by simp
  from ex same show "susp (snd (status P ?w2)) = susp w" by simp
qed

theorem suspend_resume_status_witness:
  "freeze_allowed 8 running_machine
   \<and> fst (apply_proc 8 True running_machine) = 0
   \<and> fst (apply_proc 8 False (snd (apply_proc 8 True running_machine))) = 0
   \<and> fst (status 8 (snd (apply_proc 8 False (snd (apply_proc 8 True running_machine))))) = 0
   \<and> stdout (snd (status 8 (snd (apply_proc 8 False (snd (apply_proc 8 True running_machine))))))
       = [Status_line ''R'']
   \<and> map th32ThreadID
        (probed_entries 8 (snd (apply_proc 8 False (snd (apply_proc 8 True running_machine)))))
       = [11]
   \<and> trace (snd (status 8 (snd (apply_proc 8 False (snd (apply_proc 8 True running_machine)))))) =
       [GetProcAddress_call ''NtSuspendProcess'', OpenProcess_call 8,
        Primitive_call NtSuspendProcess (Handle 1), CloseHandle_call (Handle 1),
        GetProcAddress_call ''NtResumeProcess'', OpenProcess_call 8,
        Primitive_call NtResumeProcess (Handle 1), CloseHandle_call (Handle 1),
        Snapshot_call,
        OpenThread_call 11, SuspendThread_call (Some 11), ResumeThread_call (Some 11),
        CloseHandle_call (Handle 2),
        CloseHandle_call (Handle 1)]
   \<and> map (susp (snd (status 8 (snd (apply_proc 8 False (snd (apply_proc 8 True running_machine)))))))
        [10, 11, 12, 13] = [0, 0, 0, 0]"
proof -
  let ?w1 = "snd (apply_proc 8 True running_machine)"
  let ?w2 = "snd (apply_proc 8 False ?w1)"
  have f: "freeze_allowed 8 running_machine"
    by (simp add: freeze_allowed_def machine_defs)
  have h: "owned_by 8 (threads running_machine) \<noteq> []"
    "\<forall>e \<in> set (owned_by 8 (threads running_machine)). susp running_machine (th32ThreadID e) = 0"
    "probes_allowed 8 running_machine"
    by (simp_all add: probes_allowed_def machine_defs os_defs)
  have o: "th32ThreadID (hd (owned_by 8 (threads running_machine))) = 11"
    "stdout running_machine = []" "trace running_machine = []"
    "fresh_handle (handles running_machine) = 1"
    "map (susp running_machine) [10, 11, 12, 13] = [0, 0, 0, 0]"
    by (simp_all add: machine_defs os_defs)
  note t = suspend_resume_status [of 8 running_machine]
  from t f have s: "fst (apply_proc 8 True running_machine) = 0"
    "fst (apply_proc 8 False ?w1) = 0" by blast+
  have hs: "thread_handle ?w2 = 2" "snapshot_handle ?w2 = 1"
    by (simp_all add: thread_handle_def snapshot_handle_def apply_proc_handles
        apply_proc_exit_0 [OF s(1)] apply_proc_exit_0 [OF s(2)] machine_defs fresh_handle_def)
  from t h s have c:
    "fst (status 8 ?w2) = 0
     \<and> stdout (snd (status 8 ?w2)) = stdout running_machine @ [Status_line ''R'']
     \<and> probed_entries 8 ?w2 = [hd (owned_by 8 (threads running_machine))]
     \<and> trace ?w1 =
           trace running_machine @ [GetProcAddress_call ''NtSuspendProcess'', OpenProcess_call 8,
                      Primitive_call NtSuspendProcess (Handle (fresh_handle (handles running_machine))),
                      CloseHandle_call (Handle (fresh_handle (handles running_machine)))]
     \<and> trace ?w2 =
           trace ?w1
             @ [GetProcAddress_call ''NtResumeProcess'', OpenProcess_call 8,
                Primitive_call NtResumeProcess (Handle (fresh_handle (handles running_machine))),
                CloseHandle_call (Handle (fresh_handle (handles running_machine)))]
     \<and> trace (snd (status 8 ?w2)) =
           trace ?w2 @ [Snapshot_call]
             @ probe_calls (thread_handle ?w2)
                 (th32ThreadID (hd (owned_by 8 (threads running_machine))))
             @ [CloseHandle_call (Handle (snapshot_handle ?w2))]
     \<and> susp (snd (status 8 ?w2)) = susp running_machine"
    by blast
  with f s o hs show ?thesis by (simp add: probe_calls_def)
qed

section \<open>A process that does not exist\<close>

text \<open>
  Claim C3 as stated does not hold. For the identifier 9, which names no process of the
  running machine, \<open>status\<close> ends with exit code 1 but the line it prints, \<open>No threads
  found for pid 9\<close>, carries no text of the operating system. And \<open>suspend\<close> does not
  detect the failure of \<open>OpenProcess\<close>, which returns \<open>NULL\<close> where the code compares
  with \<open>INVALID_HANDLE_VALUE\<close>: the primitive is invoked on the null handle, and the line
  printed is the one for the primitive's result, with whatever the message buffer held.
\<close>

theorem missing_process_counterexample:
  "9 \<notin> set (procs running_machine)
   \<and> fst (status 9 running_machine) = 1
   \<and> stdout (snd (status 9 running_machine)) = [No_threads_found 9]
   \<and> os_text_of (No_threads_found 9) = None
   \<and> fst (apply_proc 9 True running_machine) = 1
   \<and> trace (snd (apply_proc 9 True running_machine)) =
       [GetProcAddress_call ''NtSuspendProcess'', OpenProcess_call 9,
        Primitive_call NtSuspendProcess NULL, CloseHandle_call NULL]
   \<and> stdout (snd (apply_proc 9 True running_machine)) =
       [Primitive_returns ''NtSuspendProcess'' 9 STATUS_INVALID_HANDLE []]"
  by (simp add: status_def status_loop.simps apply_proc_def machine_defs os_defs
      STATUS_INVALID_HANDLE_def)

text \<open>
  Claim C3, amended. Let \<open>P\<close> name no existing process, every thread of the snapshot
  belonging to an existing process. Then \<open>status(P)\<close> ends with exit code 1, changes no
  suspend count and prints exactly one line: \<open>No threads found for pid P\<close>, which
  carries no text of the operating system, when the snapshot succeeds; and the snapshot
  failure line when it does not, with the text \<open>win32_strerror\<close> returns for the
  snapshot's error code, which is the system's message for that code when the system
  has one. \<open>suspend\<close> and \<open>resume\<close>, when the primitive cannot be resolved, make no
  other call, end with exit code 1 and print the \<open>GetProcAddress\<close> failure line with
  the text for its error code. What \<open>suspend\<close> and \<open>resume\<close> do once the primitive is
  resolved, where the result of \<open>OpenProcess\<close> is compared with
  \<open>INVALID_HANDLE_VALUE\<close>, is not part of this statement.
\<close>

theorem missing_process_fails:
  assumes "P \<notin> set (procs w)"
    and "\<forall>e \<in> set (threads w). th32OwnerProcessID e \<in> set (procs w)"
  shows "fst (status P w) = 1
   \<and> susp (snd (status P w)) = susp w
   \<and> (snapshot_error (faults w) = None \<longrightarrow>
         status P w =
           (1, w\<lparr>trace := trace w
                    @ [Snapshot_call, CloseHandle_call (Handle (snapshot_handle w))],
                 stdout := stdout w @ [No_threads_found P]\<rparr>))
   \<and> os_text_of (No_threads_found P) = None
   \<and> (\<forall>err. snapshot_error (faults w) = Some err \<longrightarrow>
         status P w =
           (1, w\<lparr>trace := trace w @ [Snapshot_call], last_error := err,
                 msgbuf := error_text w err,
                 stdout := stdout w
                   @ [Failed_CreateToolhelp32Snapshot (error_text w err)]\<rparr>))
   \<and> (\<forall>err text. snapshot_error (faults w) = Some err
                  \<and> system_message (faults w) err = Some text \<longrightarrow>
         stdout (snd (status P w)) = stdout w @ [Failed_CreateToolhelp32Snapshot text])
   \<and> (\<forall>err. missing_export (faults w) (primitive_name suspend) = Some err \<longrightarrow>
         apply_proc P suspend w =
           (1, w\<lparr>trace := trace w @ [GetProcAddress_call (primitive_name suspend)],
                 last_error := err, msgbuf := error_text w err,
                 stdout := stdout w
                   @ [Failed_GetProcAddress (primitive_name suspend) (error_text w err)]\<rparr>))
   \<and> (\<forall>err text. missing_export (faults w) (primitive_name suspend) = Some err
                  \<and> system_message (faults w) err = Some text \<longrightarrow>
         stdout (snd (apply_proc P suspend w))
           = stdout w @ [Failed_GetProcAddress (primitive_name suspend) text])"
proof -
  from assms have no: "\<forall>e \<in> set (threads w). th32OwnerProcessID e \<noteq> P" by auto
  have st: "fst (status P w) = 1 \<and> susp (snd (status P w)) = susp w
     \<and> (snapshot_error (faults w) = None \<longrightarrow>
         status P w =
           (1, w\<lparr>trace := trace w
                    @ [Snapshot_call, CloseHandle_call (Handle (snapshot_handle w))],
                 stdout := stdout w @ [No_threads_found P]\<rparr>))
     \<and> (\<forall>err. snapshot_error (faults w) = Some err \<longrightarrow>
         status P w =
           (1, w\<lparr>trace := trace w @ [Snapshot_call], last_error := err,
                 msgbuf := error_text w err,
                 stdout := stdout w
                   @ [Failed_CreateToolhelp32Snapshot (error_text w err)]\<rparr>))
     \<and> (\<forall>err text. snapshot_error (faults w) = Some err
                  \<and> system_message (faults w) err = Some text \<longrightarrow>
         stdout (snd (status P w)) = stdout w @ [Failed_CreateToolhelp32Snapshot text])"
  proof (cases "snapshot_error (faults w)")
    case None
    from status_without_threads [OF None no] None show ?thesis by simp
  next
    case (Some err)
    then show ?thesis by (simp add: status_snapshot_failed error_text_def)
  qed
  have ap: "(\<forall>err. missing_export (faults w) (primitive_name suspend) = Some err \<longrightarrow>
         apply_proc P suspend w =
           (1, w\<lparr>trace := trace w @ [GetProcAddress_call (primitive_name suspend)],
                 last_error := err, msgbuf := error_text w err,
                 stdout := stdout w
                   @ [Failed_GetProcAddress (primitive_name suspend) (error_text w err)]\<rparr>))
   \<and> (\<forall>err text. missing_export (faults w) (primitive_name suspend) = Some err
                  \<and> system_message (faults w) err = Some text \<longrightarrow>
         stdout (snd (apply_proc P suspend w))
           = stdout w @ [Failed_GetProcAddress (primitive_name suspend) text])"
    by (simp add: apply_proc_unresolved error_text_def)
  have ot: "os_text_of (No_threads_found P) = None" by simp
  from st ap ot show ?thesis by blast
qed

theorem missing_process_fails_witness:
  "9 \<notin> set (procs running_machine)
   \<and> procs running_machine = [4, 8]
   \<and> map th32OwnerProcessID (threads running_machine) = [4, 8, 8, 8]
   \<and> fst (status 9 running_machine) = 1
   \<and> stdout (snd (status 9 running_machine)) = [No_threads_found 9]
   \<and> fst (status 9 snapshot_refused_machine) = 1
   \<and> stdout (snd (status 9 snapshot_refused_machine))
       = [Failed_CreateToolhelp32Snapshot ''Access is denied.'']
   \<and> fst (apply_proc 9 True no_ntdll_machine) = 1
   \<and> trace (snd (apply_proc 9 True no_ntdll_machine)) = [GetProcAddress_call ''NtSuspendProcess'']
   \<and> stdout (snd (apply_proc 9 True no_ntdll_machine))
       = [Failed_GetProcAddress ''NtSuspendProcess'' []]"
proof -
  have a: "9 \<notin> set (procs running_machine)" "9 \<notin> set (procs snapshot_refused_machine)"
    "9 \<notin> set (procs no_ntdll_machine)"
    by (simp_all add: machine_defs snapshot_refused_machine_def no_ntdll_machine_def)
  have b: "\<forall>e \<in> set (threads running_machine). th32OwnerProcessID e \<in> set (procs running_machine)"
    "\<forall>e \<in> set (threads snapshot_refused_machine).
        th32OwnerProcessID e \<in> set (procs snapshot_refused_machine)"
    "\<forall>e \<in> set (threads no_ntdll_machine). th32OwnerProcessID e \<in> set (procs no_ntdll_machine)"
    by (simp_all add: machine_defs snapshot_refused_machine_def no_ntdll_machine_def)
  have c: "snapshot_error (faults running_machine) = None" "stdout running_machine = []"
    "procs running_machine = [4, 8]"
    "map th32OwnerProcessID (threads running_machine) = [4, 8, 8, 8]"
    "snapshot_error (faults snapshot_refused_machine) = Some 5"
    "system_message (faults snapshot_refused_machine) 5 = Some ''Access is denied.''"
    "stdout snapshot_refused_machine = []"
    "missing_export (faults no_ntdll_machine) (primitive_name True) = Some 127"
    "primitive_name True = ''NtSuspendProcess''"
    "error_text no_ntdll_machine 127 = []"
    "stdout no_ntdll_machine = []" "trace no_ntdll_machine = []"
    by (simp_all add: machine_defs snapshot_refused_machine_def no_ntdll_machine_def
        primitive_name_def error_text_def)
  note r = missing_process_fails [OF a(1) b(1), of True]
  note s = missing_process_fails [OF a(2) b(2), of True]
  note n = missing_process_fails [OF a(3) b(3), of True]
  from r have "fst (status 9 running_machine) = 1" by blast
  moreover from r c(1) have "status 9 running_machine =
           (1, running_machine\<lparr>trace := trace running_machine
                    @ [Snapshot_call, CloseHandle_call (Handle (snapshot_handle running_machine))],
                 stdout := stdout running_machine @ [No_threads_found 9]\<rparr>)"
    by blast
  ultimately have 1: "fst (status 9 running_machine) = 1"
    "stdout (snd (status 9 running_machine)) = [No_threads_found 9]"
    using c(2) by simp_all
  from s have "fst (status 9 snapshot_refused_machine) = 1" by blast
  moreover from s c(5,6) have "stdout (snd (status 9 snapshot_refused_machine))
      = stdout snapshot_refused_machine @ [Failed_CreateToolhelp32Snapshot ''Access is denied.'']"
    by blast
  ultimately have 2: "fst (status 9 snapshot_refused_machine) = 1"
    "stdout (snd (status 9 snapshot_refused_machine))
       = [Failed_CreateToolhelp32Snapshot ''Access is denied.'']"
    using c(7) by simp_all
  from n c(8) have "apply_proc 9 True no_ntdll_machine =
           (1, no_ntdll_machine
                \<lparr>trace := trace no_ntdll_machine @ [GetProcAddress_call (primitive_name True)],
                 last_error := 127, msgbuf := error_text no_ntdll_machine 127,
                 stdout := stdout no_ntdll_machine
                   @ [Failed_GetProcAddress (primitive_name True)
                        (error_text no_ntdll_machine 127)]\<rparr>)"
    by blast
  with c have 3: "fst (apply_proc 9 True no_ntdll_machine) = 1"
    "trace (snd (apply_proc 9 True no_ntdll_machine)) = [GetProcAddress_call ''NtSuspendProcess'']"
    "stdout (snd (apply_proc 9 True no_ntdll_machine))
       = [Failed_GetProcAddress ''NtSuspendProcess'' []]"
    by simp_all
  from a c 1 2 3 show ?thesis by simp
qed

end
